theory Spec2Isabelle
  imports Main
begin

section \<open>Event data (lib/types)\<close>

text \<open>
  The events arrive as JSON objects. A field the code tests for truthiness or renders
  into a template literal before use is an option (\<open>None\<close> is JavaScript's
  \<open>undefined\<close>); the other fields have the type the TypeScript interface gives them.
  Two interfaces share field names, so the transfer's carry the suffix \<open>_t\<close>.
\<close>

datatype Side = BUY | SELL

record TransferEvent =
  id_t :: "string option"
  walletAddress :: string
  tokenAddress_t :: string
  amount :: string
  signature :: "string option"
  timestamp_t :: string
  side :: Side

text \<open>
  \<open>CoordinatedTrade\<close>: the fields read by the feed code. (\<open>id\<close>,
  \<open>timeWindowSeconds\<close>, \<open>pattern\<close>, \<open>windowStart\<close>, \<open>windowEnd\<close> and
  \<open>walletAddresses\<close> are display-only and left out.)
\<close>

record CoordinatedTrade =
  tokenAddress :: string
  timestamp :: "string option"
  walletCount :: "int option"
  wallets :: "string list"
  triggeredAt :: "string option"
  uniqueWalletCount :: "int option"

text \<open>Truthiness of an optional string: \<open>undefined\<close> and \<open>""\<close> are falsy.\<close>

definition truthy :: "string option \<Rightarrow> bool" where
  "truthy v = (case v of None \<Rightarrow> False | Some s \<Rightarrow> s \<noteq> [])"

text \<open>An optional string inside a template literal: \<open>undefined\<close> prints as such.\<close>

definition str :: "string option \<Rightarrow> string" where
  "str v = (case v of None \<Rightarrow> ''undefined'' | Some s \<Rightarrow> s)"

text \<open>
  \<open>getTradeTimestamp\<close>: \<open>trade.timestamp || trade.triggeredAt || new Date().toISOString()\<close>.
  The clock reading is the parameter \<open>nowISO\<close>.
\<close>

definition getTradeTimestamp :: "string \<Rightarrow> CoordinatedTrade \<Rightarrow> string" where
  "getTradeTimestamp nowISO trade =
     (if truthy (timestamp trade) then the (timestamp trade)
      else if truthy (triggeredAt trade) then the (triggeredAt trade)
      else nowISO)"

text \<open>\<open>getWalletCount\<close>: \<open>trade.walletCount ?? trade.uniqueWalletCount ?? 0\<close>.\<close>

definition getWalletCount :: "CoordinatedTrade \<Rightarrow> int" where
  "getWalletCount trade =
     (case walletCount trade of
        Some n \<Rightarrow> n
      | None \<Rightarrow> (case uniqueWalletCount trade of Some n \<Rightarrow> n | None \<Rightarrow> 0))"

section \<open>The live feed page (app/(dashboard)/live/page.tsx)\<close>

datatype StreamType = StreamAll | StreamTransfers | StreamCoordinated

datatype FeedItem = Transfer TransferEvent | Coordinated CoordinatedTrade

datatype FeedType = TypeTransfer | TypeCoordinated

fun item_type :: "FeedItem \<Rightarrow> FeedType" where
  "item_type (Transfer e) = TypeTransfer"
| "item_type (Coordinated d) = TypeCoordinated"

definition MAX_FEED_ITEMS :: nat where
  "MAX_FEED_ITEMS = 500"

text \<open>The key of the page's duplicate check: \<open>`${tokenAddress}-${triggeredAt}`\<close>.\<close>

definition tradeKey :: "CoordinatedTrade \<Rightarrow> string" where
  "tradeKey d = tokenAddress d @ ''-'' @ str (triggeredAt d)"

fun isDuplicateCoordinated :: "string \<Rightarrow> FeedItem \<Rightarrow> bool" where
  "isDuplicateCoordinated k (Coordinated d) = (tradeKey d = k)"
| "isDuplicateCoordinated k (Transfer e) = False"

fun isDuplicateTransfer :: "string option \<Rightarrow> FeedItem \<Rightarrow> bool" where
  "isDuplicateTransfer sg (Transfer e) = (signature e = sg)"
| "isDuplicateTransfer sg (Coordinated d) = False"

text \<open>
  The updater handed to \<open>setFeedItems\<close>: \<open>prev.some(...)\<close> is \<open>list_ex\<close>, the
  spread \<open>[item, ...prev]\<close> is a cons, \<open>slice(0, MAX_FEED_ITEMS)\<close> is \<open>take\<close>.
\<close>

fun feedUpdater :: "FeedItem \<Rightarrow> FeedItem list \<Rightarrow> FeedItem list" where
  "feedUpdater (Coordinated d) prev =
     (if list_ex (isDuplicateCoordinated (tradeKey d)) prev then prev
      else take MAX_FEED_ITEMS (Coordinated d # prev))"
| "feedUpdater (Transfer e) prev =
     (if truthy (signature e) \<and> list_ex (isDuplicateTransfer (signature e)) prev then prev
      else take MAX_FEED_ITEMS (Transfer e # prev))"

text \<open>
  \<open>playNotificationSound\<close>: an oscillator at 880 Hz for a coordinated trade and 440 Hz
  for a transfer. The body is inside \<open>try\<close>/\<open>catch\<close>: where the platform has no Web
  Audio (\<open>audio = False\<close>) the constructor throws, the exception is swallowed and nothing
  is played. The tones started so far are the list \<open>played\<close>.
\<close>

definition playNotificationSound :: "bool \<Rightarrow> FeedType \<Rightarrow> nat list \<Rightarrow> nat list" where
  "playNotificationSound audio ty played =
     (if audio then played @ [if ty = TypeCoordinated then 880 else 440] else played)"

record LiveFeedPage =
  streamType :: StreamType
  isPaused :: bool
  soundEnabled :: bool
  feedItems :: "FeedItem list"
  played :: "nat list"

definition LiveFeedPage_init :: LiveFeedPage where
  "LiveFeedPage_init =
     \<lparr>streamType = StreamAll, isPaused = False, soundEnabled = False, feedItems = [],
      played = []\<rparr>"

definition addFeedItem :: "bool \<Rightarrow> FeedItem \<Rightarrow> LiveFeedPage \<Rightarrow> LiveFeedPage" where
  "addFeedItem audio item p =
     (let p1 = p\<lparr>feedItems := feedUpdater item (feedItems p)\<rparr>
      in if soundEnabled p1
         then p1\<lparr>played := playNotificationSound audio (item_type item) (played p1)\<rparr>
         else p1)"

text \<open>The stream callbacks of the page: \<open>if (!isPaused) addFeedItem(...)\<close>.\<close>

definition live_onTransfer :: "bool \<Rightarrow> TransferEvent \<Rightarrow> LiveFeedPage \<Rightarrow> LiveFeedPage" where
  "live_onTransfer audio event p =
     (if \<not> isPaused p then addFeedItem audio (Transfer event) p else p)"

definition live_onCoordinated ::
  "bool \<Rightarrow> CoordinatedTrade \<Rightarrow> LiveFeedPage \<Rightarrow> LiveFeedPage" where
  "live_onCoordinated audio event p =
     (if \<not> isPaused p then addFeedItem audio (Coordinated event) p else p)"

definition clearFeed :: "LiveFeedPage \<Rightarrow> LiveFeedPage" where
  "clearFeed p = p\<lparr>feedItems := []\<rparr>"

section \<open>The dashboard page (its live mini-feeds)\<close>

definition MAX_LIVE_TRANSFERS :: nat where
  "MAX_LIVE_TRANSFERS = 50"

definition MAX_LIVE_COORDINATED :: nat where
  "MAX_LIVE_COORDINATED = 20"

record DatabaseStats =
  transferCount :: int
  coordinatedCount :: int

text \<open>
  \<open>seenCoordinatedRef\<close> holds a JavaScript \<open>Set\<close> of strings. A \<open>Set\<close> iterates in
  insertion order, and the pruning step depends on that order, so it is the list of its
  members, oldest first. \<open>toasts\<close> is the log of \<open>toast.warning\<close> calls: the wallet
  count and the eight-character token prefix of each description.
\<close>

record DashboardPage =
  recentTransfers :: "TransferEvent list"
  recentCoordinated :: "CoordinatedTrade list"
  dashPaused :: bool
  seenCoordinated :: "string list"
  stats :: DatabaseStats
  toasts :: "(int \<times> string) list"

definition DashboardPage_init :: "DatabaseStats \<Rightarrow> DashboardPage" where
  "DashboardPage_init st =
     \<lparr>recentTransfers = [], recentCoordinated = [], dashPaused = False,
      seenCoordinated = [], stats = st, toasts = []\<rparr>"

definition handleTransfer :: "TransferEvent \<Rightarrow> DashboardPage \<Rightarrow> DashboardPage" where
  "handleTransfer data s =
     (if dashPaused s then s
      else s\<lparr>recentTransfers := data # take (MAX_LIVE_TRANSFERS - 1) (recentTransfers s),
              stats := (stats s)\<lparr>transferCount := transferCount (stats s) + 1\<rparr>\<rparr>)"

text \<open>The dashboard's key: \<open>`${data.tokenAddress}-${getTradeTimestamp(data)}`\<close>.\<close>

definition dashTradeKey :: "string \<Rightarrow> CoordinatedTrade \<Rightarrow> string" where
  "dashTradeKey nowISO d = tokenAddress d @ ''-'' @ getTradeTimestamp nowISO d"

text \<open>
  The cleanup of the seen set: \<open>if (size > 100) new Set(Array.from(set).slice(-50))\<close>.
  \<open>slice(-50)\<close> keeps the last fifty entries (all of them when there are fewer).
\<close>

definition pruneSeen :: "string list \<Rightarrow> string list" where
  "pruneSeen seen = (if length seen > 100 then drop (length seen - 50) seen else seen)"

definition handleCoordinated ::
  "string \<Rightarrow> CoordinatedTrade \<Rightarrow> DashboardPage \<Rightarrow> DashboardPage" where
  "handleCoordinated nowISO data s =
     (if dashPaused s then s
      else let k = dashTradeKey nowISO data in
        if k \<in> set (seenCoordinated s) then s
        else s\<lparr>seenCoordinated := pruneSeen (seenCoordinated s @ [k]),
                toasts := toasts s @ [(getWalletCount data, take 8 (tokenAddress data))],
                stats := (stats s)\<lparr>coordinatedCount := coordinatedCount (stats s) + 1\<rparr>,
                recentCoordinated :=
                  data # take (MAX_LIVE_COORDINATED - 1) (recentCoordinated s)\<rparr>)"

definition handleClearLive :: "DashboardPage \<Rightarrow> DashboardPage" where
  "handleClearLive s = s\<lparr>recentTransfers := [], recentCoordinated := []\<rparr>"

text \<open>
  What can happen to the dashboard page: an event delivered by the stream (a coordinated
  trade together with the clock reading of its arrival), the pause button
  (\<open>setIsPaused(!isPaused)\<close>) and the clear button.
\<close>

datatype DashAction =
    ActTransfer TransferEvent
  | ActCoordinated string CoordinatedTrade
  | ActTogglePause
  | ActClearLive

fun dash_step :: "DashAction \<Rightarrow> DashboardPage \<Rightarrow> DashboardPage" where
  "dash_step (ActTransfer e) s = handleTransfer e s"
| "dash_step (ActCoordinated nowISO d) s = handleCoordinated nowISO d s"
| "dash_step ActTogglePause s = s\<lparr>dashPaused := \<not> dashPaused s\<rparr>"
| "dash_step ActClearLive s = handleClearLive s"

definition dash_run :: "DashAction list \<Rightarrow> DashboardPage \<Rightarrow> DashboardPage" where
  "dash_run acts s = foldl (\<lambda>s a. dash_step a s) s acts"

section \<open>The stream hooks (lib/hooks/useSSE.ts)\<close>

datatype SSEStatus = Connecting | Connected | Disconnected | Error

text \<open>
  \<open>SSEOptions\<close>: every field is optional. \<open>None\<close> is a key the caller did not
  supply. \<open>{ ...DEFAULT_OPTIONS, ...options }\<close> takes each key from \<open>options\<close> where
  it is present and from the defaults otherwise.
\<close>

record SSEOptions =
  enabled :: "bool option"
  autoReconnect :: "bool option"
  reconnectDelay :: "int option"
  maxReconnectAttempts :: "int option"
  url :: "string option"

definition DEFAULT_OPTIONS :: SSEOptions where
  "DEFAULT_OPTIONS =
     \<lparr>enabled = Some True, autoReconnect = Some True, reconnectDelay = Some 5000,
      maxReconnectAttempts = Some 10, url = None\<rparr>"

definition spread :: "'a option \<Rightarrow> 'a option \<Rightarrow> 'a option" where
  "spread dflt given = (case given of None \<Rightarrow> dflt | Some v \<Rightarrow> Some v)"

definition mergeOptions :: "SSEOptions \<Rightarrow> SSEOptions" where
  "mergeOptions options =
     \<lparr>enabled = spread (enabled DEFAULT_OPTIONS) (enabled options),
      autoReconnect = spread (autoReconnect DEFAULT_OPTIONS) (autoReconnect options),
      reconnectDelay = spread (reconnectDelay DEFAULT_OPTIONS) (reconnectDelay options),
      maxReconnectAttempts =
        spread (maxReconnectAttempts DEFAULT_OPTIONS) (maxReconnectAttempts options),
      url = spread (url DEFAULT_OPTIONS) (url options)\<rparr>"

text \<open>
  \<open>v || d\<close> on an optional number (\<open>undefined\<close> and \<open>0\<close> are falsy), on an optional
  string, and the truthiness of an optional boolean.
\<close>

definition orNum :: "int option \<Rightarrow> int \<Rightarrow> int" where
  "orNum v d = (case v of None \<Rightarrow> d | Some n \<Rightarrow> if n = 0 then d else n)"

definition orStr :: "string option \<Rightarrow> string \<Rightarrow> string" where
  "orStr v d = (if truthy v then the v else d)"

definition isTrue :: "bool option \<Rightarrow> bool" where
  "isTrue v = (v = Some True)"

text \<open>
  The objects the hook holds references to live in two stores. \<open>sources\<close> is the list
  of the \<open>EventSource\<close> objects created so far; an object is named by its index, and
  \<open>eventSourceRef\<close> holds such an index. \<open>timers\<close> is the list of the timers created
  by \<open>setTimeout\<close>, each with its delay and its state; \<open>reconnectTimeoutRef\<close> holds an
  index into it.
\<close>

record EventSource =
  es_url :: string
  closed :: bool

datatype TimerState = Pending | Cleared | Fired

datatype ConsoleEntry =
    ConsoleLog string
  | ConsoleError string
  | ConsoleReconnecting int int

record SSEHook =
  status :: SSEStatus
  statusLog :: "SSEStatus list"
  lastEvent :: "nat option"
  sources :: "EventSource list"
  eventSourceRef :: "nat option"
  reconnectAttempts :: int
  timers :: "(int \<times> TimerState) list"
  reconnectTimeoutRef :: "nat option"
  console :: "ConsoleEntry list"

definition SSEHook_init :: SSEHook where
  "SSEHook_init =
     \<lparr>status = Disconnected, statusLog = [], lastEvent = None, sources = [],
      eventSourceRef = None, reconnectAttempts = 0, timers = [],
      reconnectTimeoutRef = None, console = []\<rparr>"

text \<open>\<open>es.close()\<close>, \<open>clearTimeout(t)\<close>, \<open>setTimeout(connect, delay)\<close>, \<open>console\<close>.\<close>

definition closeSource :: "nat \<Rightarrow> SSEHook \<Rightarrow> SSEHook" where
  "closeSource i h =
     (if i < length (sources h)
      then h\<lparr>sources := (sources h)[i := (sources h ! i)\<lparr>closed := True\<rparr>]\<rparr>
      else h)"

definition clearTimeout :: "nat \<Rightarrow> SSEHook \<Rightarrow> SSEHook" where
  "clearTimeout t h =
     (if t < length (timers h) \<and> snd (timers h ! t) = Pending
      then h\<lparr>timers := (timers h)[t := (fst (timers h ! t), Cleared)]\<rparr>
      else h)"

definition setTimeout_connect :: "int \<Rightarrow> SSEHook \<Rightarrow> SSEHook" where
  "setTimeout_connect delay h =
     h\<lparr>reconnectTimeoutRef := Some (length (timers h)),
       timers := timers h @ [(delay, Pending)]\<rparr>"

definition logged :: "ConsoleEntry \<Rightarrow> SSEHook \<Rightarrow> SSEHook" where
  "logged entry h = h\<lparr>console := console h @ [entry]\<rparr>"

text \<open>
  \<open>setStatus\<close>; \<open>statusLog\<close> records every call, since a handler may set the status
  twice.
\<close>

definition setStatus :: "SSEStatus \<Rightarrow> SSEHook \<Rightarrow> SSEHook" where
  "setStatus st h = h\<lparr>status := st, statusLog := statusLog h @ [st]\<rparr>"

text \<open>
  The callbacks act on the state \<open>'c\<close> of the component that registered them. Each is
  optional and called through \<open>?.\<close>.
\<close>

record 'c SSECallbacks =
  onTransfer :: "(TransferEvent \<Rightarrow> 'c \<Rightarrow> 'c) option"
  onCoordinated :: "(CoordinatedTrade \<Rightarrow> 'c \<Rightarrow> 'c) option"
  onError :: "('c \<Rightarrow> 'c) option"
  onStatusChange :: "(SSEStatus \<Rightarrow> 'c \<Rightarrow> 'c) option"

definition call0 :: "('c \<Rightarrow> 'c) option \<Rightarrow> 'c \<Rightarrow> 'c" where
  "call0 f c = (case f of None \<Rightarrow> c | Some g \<Rightarrow> g c)"

definition call1 :: "('a \<Rightarrow> 'c \<Rightarrow> 'c) option \<Rightarrow> 'a \<Rightarrow> 'c \<Rightarrow> 'c" where
  "call1 f x c = (case f of None \<Rightarrow> c | Some g \<Rightarrow> g x c)"

subsection \<open>useSSE\<close>

definition updateStatus ::
  "'c SSECallbacks \<Rightarrow> SSEStatus \<Rightarrow> SSEHook \<times> 'c \<Rightarrow> SSEHook \<times> 'c" where
  "updateStatus cb newStatus hc =
     (setStatus newStatus (fst hc), call1 (onStatusChange cb) newStatus (snd hc))"

definition clearReconnectTimeout :: "SSEHook \<Rightarrow> SSEHook" where
  "clearReconnectTimeout h =
     (case reconnectTimeoutRef h of
        None \<Rightarrow> h
      | Some t \<Rightarrow> (clearTimeout t h)\<lparr>reconnectTimeoutRef := None\<rparr>)"

definition newEventSource :: "string \<Rightarrow> SSEHook \<Rightarrow> SSEHook" where
  "newEventSource u h =
     h\<lparr>eventSourceRef := Some (length (sources h)),
       sources := sources h @ [\<lparr>es_url = u, closed = False\<rparr>]\<rparr>"

text \<open>
  \<open>connect\<close>. \<open>env\<close> is \<open>process.env.NEXT_PUBLIC_SSE_URL\<close>. The existing source is
  closed but the reference is only overwritten by the new source.
\<close>

definition connect ::
  "string option \<Rightarrow> SSEOptions \<Rightarrow> 'c SSECallbacks \<Rightarrow> SSEHook \<times> 'c \<Rightarrow> SSEHook \<times> 'c" where
  "connect env currentOpts cb hc =
     (let h1 = clearReconnectTimeout (fst hc);
          h2 = (case eventSourceRef h1 of None \<Rightarrow> h1 | Some i \<Rightarrow> closeSource i h1);
          u = orStr (url currentOpts)
                (orStr env ''https://helius.sarislabs.com/stream/all'');
          hc3 = updateStatus cb Connecting (h2, snd hc)
      in (newEventSource u (fst hc3), snd hc3))"

definition onopen :: "'c SSECallbacks \<Rightarrow> SSEHook \<times> 'c \<Rightarrow> SSEHook \<times> 'c" where
  "onopen cb hc =
     (let h1 = logged (ConsoleLog ''[SSE] Connected to stream'') (fst hc);
          h2 = h1\<lparr>reconnectAttempts := 0\<rparr>
      in updateStatus cb Connected (h2, snd hc))"

text \<open>
  The listeners. \<open>JSON.parse\<close> is a parameter: it returns \<open>None\<close> where it throws, and
  the value cast to the type the listener expects otherwise. \<open>now\<close> is the reading of
  \<open>new Date()\<close>.
\<close>

definition transfersListener ::
  "(string \<Rightarrow> TransferEvent list option) \<Rightarrow> 'c SSECallbacks \<Rightarrow> string \<Rightarrow> nat
     \<Rightarrow> SSEHook \<times> 'c \<Rightarrow> SSEHook \<times> 'c" where
  "transfersListener JSON_parse cb payload now hc =
     (case JSON_parse payload of
        Some arr \<Rightarrow>
          ((fst hc)\<lparr>lastEvent := Some now\<rparr>,
           foldl (\<lambda>c data. call1 (onTransfer cb) data c) (snd hc) arr)
      | None \<Rightarrow>
          (logged (ConsoleError ''[SSE] Failed to parse transfers event:'') (fst hc),
           snd hc))"

definition coordinatedListener ::
  "(string \<Rightarrow> CoordinatedTrade option) \<Rightarrow> 'c SSECallbacks \<Rightarrow> string \<Rightarrow> nat
     \<Rightarrow> SSEHook \<times> 'c \<Rightarrow> SSEHook \<times> 'c" where
  "coordinatedListener JSON_parse cb payload now hc =
     (case JSON_parse payload of
        Some data \<Rightarrow>
          ((fst hc)\<lparr>lastEvent := Some now\<rparr>, call1 (onCoordinated cb) data (snd hc))
      | None \<Rightarrow>
          (logged (ConsoleError ''[SSE] Failed to parse coordinated event:'') (fst hc),
           snd hc))"

definition heartbeatListener :: "nat \<Rightarrow> SSEHook \<times> 'c \<Rightarrow> SSEHook \<times> 'c" where
  "heartbeatListener now hc = ((fst hc)\<lparr>lastEvent := Some now\<rparr>, snd hc)"

text \<open>
  \<open>eventSource.onerror\<close>; \<open>es\<close> is the source the handler was registered on. The
  options are read from \<open>optsRef.current\<close>, the merged options of the latest render.
\<close>

definition onerror ::
  "SSEOptions \<Rightarrow> 'c SSECallbacks \<Rightarrow> nat \<Rightarrow> SSEHook \<times> 'c \<Rightarrow> SSEHook \<times> 'c" where
  "onerror opts cb es hc =
     (let h1 = logged (ConsoleError ''[SSE] Connection error'') (fst hc);
          hc2 = updateStatus cb Error (h1, snd hc);
          c3 = call0 (onError cb) (snd hc2);
          h3 = closeSource es (fst hc2);
          maxAttempts = orNum (maxReconnectAttempts opts) 10;
          delay = orNum (reconnectDelay opts) 5000
      in if isTrue (autoReconnect opts) \<and> reconnectAttempts h3 < maxAttempts
         then
           (let h4 = h3\<lparr>reconnectAttempts := reconnectAttempts h3 + 1\<rparr>;
                h5 = logged (ConsoleReconnecting delay (reconnectAttempts h4)) h4
            in (setTimeout_connect delay h5, c3))
         else if reconnectAttempts h3 \<ge> maxAttempts
         then updateStatus cb Disconnected
                (logged (ConsoleError ''[SSE] Max reconnect attempts reached'') h3, c3)
         else (h3, c3))"

definition disconnect :: "'c SSECallbacks \<Rightarrow> SSEHook \<times> 'c \<Rightarrow> SSEHook \<times> 'c" where
  "disconnect cb hc =
     (let h1 = clearReconnectTimeout (fst hc);
          h2 = (case eventSourceRef h1 of
                  None \<Rightarrow> h1
                | Some i \<Rightarrow> (closeSource i h1)\<lparr>eventSourceRef := None\<rparr>);
          h3 = h2\<lparr>reconnectAttempts := 0\<rparr>;
          hc4 = updateStatus cb Disconnected (h3, snd hc)
      in (logged (ConsoleLog ''[SSE] Disconnected from stream'') (fst hc4), snd hc4))"

text \<open>A pending reconnect timer fires: the browser runs its callback, \<open>connect\<close>.\<close>

definition timerFired ::
  "string option \<Rightarrow> SSEOptions \<Rightarrow> 'c SSECallbacks \<Rightarrow> nat \<Rightarrow> SSEHook \<times> 'c
     \<Rightarrow> SSEHook \<times> 'c" where
  "timerFired env opts cb t hc =
     (if t < length (timers (fst hc)) \<and> snd (timers (fst hc) ! t) = Pending
      then connect env opts cb
             ((fst hc)\<lparr>timers := (timers (fst hc))[t := (fst (timers (fst hc) ! t), Fired)]\<rparr>,
              snd hc)
      else hc)"

text \<open>What can happen to a mounted \<open>useSSE\<close>, and the hook's reaction.\<close>

datatype SSEEvent =
    EvConnect
  | EvOpen
  | EvTransfers string nat
  | EvCoordinated string nat
  | EvHeartbeat nat
  | EvError nat
  | EvTimer nat
  | EvDisconnect

fun sse_step ::
  "string option \<Rightarrow> (string \<Rightarrow> TransferEvent list option)
     \<Rightarrow> (string \<Rightarrow> CoordinatedTrade option) \<Rightarrow> SSEOptions \<Rightarrow> 'c SSECallbacks
     \<Rightarrow> SSEEvent \<Rightarrow> SSEHook \<times> 'c \<Rightarrow> SSEHook \<times> 'c" where
  "sse_step env pt pc opts cb EvConnect hc = connect env opts cb hc"
| "sse_step env pt pc opts cb EvOpen hc = onopen cb hc"
| "sse_step env pt pc opts cb (EvTransfers payload now) hc =
     transfersListener pt cb payload now hc"
| "sse_step env pt pc opts cb (EvCoordinated payload now) hc =
     coordinatedListener pc cb payload now hc"
| "sse_step env pt pc opts cb (EvHeartbeat now) hc = heartbeatListener now hc"
| "sse_step env pt pc opts cb (EvError es) hc = onerror opts cb es hc"
| "sse_step env pt pc opts cb (EvTimer t) hc = timerFired env opts cb t hc"
| "sse_step env pt pc opts cb EvDisconnect hc = disconnect cb hc"

definition sse_run ::
  "string option \<Rightarrow> (string \<Rightarrow> TransferEvent list option)
     \<Rightarrow> (string \<Rightarrow> CoordinatedTrade option) \<Rightarrow> SSEOptions \<Rightarrow> 'c SSECallbacks
     \<Rightarrow> SSEEvent list \<Rightarrow> SSEHook \<times> 'c \<Rightarrow> SSEHook \<times> 'c" where
  "sse_run env pt pc opts cb evs hc = foldl (\<lambda>hc ev. sse_step env pt pc opts cb ev hc) hc evs"

text \<open>The callbacks the live page registers on its \<open>useSSE\<close>.\<close>

definition live_callbacks :: "bool \<Rightarrow> LiveFeedPage SSECallbacks" where
  "live_callbacks audio =
     \<lparr>onTransfer = Some (live_onTransfer audio),
      onCoordinated = Some (live_onCoordinated audio),
      onError = None, onStatusChange = None\<rparr>"

subsection \<open>useTransferStream\<close>

text \<open>
  The transfers-only hook has one callback and sets the status directly. Its message
  handler accepts an array or a single object (\<open>Array.isArray(data)\<close>).
  (\<open>useCoordinatedStream\<close> is the same code with another URL and a handler for a
  single object; it is not repeated here.)
\<close>

datatype 'a Frame = Many "'a list" | One 'a

definition ts_connect :: "string option \<Rightarrow> SSEOptions \<Rightarrow> SSEHook \<Rightarrow> SSEHook" where
  "ts_connect env currentOpts h =
     (let h1 = clearReconnectTimeout h;
          h2 = (case eventSourceRef h1 of None \<Rightarrow> h1 | Some i \<Rightarrow> closeSource i h1);
          u = orStr (url currentOpts)
                (orStr env ''https://helius.sarislabs.com/stream/transfers'')
      in newEventSource u (setStatus Connecting h2))"

definition ts_onopen :: "SSEHook \<Rightarrow> SSEHook" where
  "ts_onopen h =
     setStatus Connected
       ((logged (ConsoleLog ''[SSE] Connected to transfers stream'') h)
          \<lparr>reconnectAttempts := 0\<rparr>)"

definition ts_onmessage ::
  "(string \<Rightarrow> TransferEvent Frame option) \<Rightarrow> (TransferEvent \<Rightarrow> 'c \<Rightarrow> 'c) \<Rightarrow> string
     \<Rightarrow> SSEHook \<times> 'c \<Rightarrow> SSEHook \<times> 'c" where
  "ts_onmessage JSON_parse onTransferCb payload hc =
     (case JSON_parse payload of
        Some (Many arr) \<Rightarrow> (fst hc, foldl (\<lambda>c transfer. onTransferCb transfer c) (snd hc) arr)
      | Some (One data) \<Rightarrow> (fst hc, onTransferCb data (snd hc))
      | None \<Rightarrow> (logged (ConsoleError ''[SSE] Failed to parse transfers:'') (fst hc), snd hc))"

definition ts_onerror :: "SSEOptions \<Rightarrow> nat \<Rightarrow> SSEHook \<Rightarrow> SSEHook" where
  "ts_onerror opts es h =
     (let h1 = logged (ConsoleError ''[SSE] Transfers stream error'') h;
          h2 = setStatus Error h1;
          h3 = closeSource es h2;
          maxAttempts = orNum (maxReconnectAttempts opts) 10;
          delay = orNum (reconnectDelay opts) 5000
      in if isTrue (autoReconnect opts) \<and> reconnectAttempts h3 < maxAttempts
         then setTimeout_connect delay (h3\<lparr>reconnectAttempts := reconnectAttempts h3 + 1\<rparr>)
         else setStatus Disconnected h3)"

definition ts_disconnect :: "SSEHook \<Rightarrow> SSEHook" where
  "ts_disconnect h =
     (let h1 = clearReconnectTimeout h;
          h2 = (case eventSourceRef h1 of
                  None \<Rightarrow> h1
                | Some i \<Rightarrow> (closeSource i h1)\<lparr>eventSourceRef := None\<rparr>)
      in setStatus Disconnected h2)"

section \<open>Sample data\<close>

definition sample_transfer :: "nat \<Rightarrow> TransferEvent" where
  "sample_transfer n =
     \<lparr>id_t = None, walletAddress = ''W'', tokenAddress_t = ''T'', amount = ''1'',
      signature = Some (CHR ''S'' # replicate n CHR ''x''), timestamp_t = ''t'', side = BUY\<rparr>"

definition sample_transfers :: "nat \<Rightarrow> TransferEvent list" where
  "sample_transfers n = map sample_transfer [0..<n]"

definition stats0 :: DatabaseStats where
  "stats0 = \<lparr>transferCount = 0, coordinatedCount = 0\<rparr>"

definition unsigned_transfer :: TransferEvent where
  "unsigned_transfer = (sample_transfer 0)\<lparr>signature := None\<rparr>"

definition blank_transfer :: TransferEvent where
  "blank_transfer = (sample_transfer 0)\<lparr>signature := Some []\<rparr>"

definition sample_trade :: "string \<Rightarrow> string \<Rightarrow> CoordinatedTrade" where
  "sample_trade tok t =
     \<lparr>tokenAddress = tok, timestamp = None, walletCount = Some 3, wallets = [],
      triggeredAt = Some t, uniqueWalletCount = None\<rparr>"

text \<open>A trade that carries both instants, \<open>timestamp\<close> and \<open>triggeredAt\<close>.\<close>

definition dated_trade :: "string \<Rightarrow> string \<Rightarrow> string \<Rightarrow> CoordinatedTrade" where
  "dated_trade tok ts trig =
     \<lparr>tokenAddress = tok, timestamp = Some ts, walletCount = Some 3, wallets = [],
      triggeredAt = Some trig, uniqueWalletCount = None\<rparr>"

text \<open>Trades of one token triggered at the instants 1, 10, 100, ...\<close>

definition nth_trade :: "nat \<Rightarrow> CoordinatedTrade" where
  "nth_trade i = sample_trade ''Tok'' (CHR ''1'' # replicate i CHR ''0'')"

definition sample_trades :: "nat \<Rightarrow> DashAction list" where
  "sample_trades n = map (\<lambda>i. ActCoordinated ''now'' (nth_trade i)) [0..<n]"

definition sample_keys :: "nat \<Rightarrow> string list" where
  "sample_keys n = map (\<lambda>i. dashTradeKey ''now'' (nth_trade i)) [0..<n]"

text \<open>Two dashboards that differ from the initial one in one mini-feed only.\<close>

definition dash_with_trade :: DashboardPage where
  "dash_with_trade =
     (DashboardPage_init stats0)
       \<lparr>recentCoordinated := [nth_trade 0],
        seenCoordinated := [dashTradeKey ''now'' (nth_trade 0)]\<rparr>"

definition dash_with_transfer :: DashboardPage where
  "dash_with_transfer = (DashboardPage_init stats0)\<lparr>recentTransfers := [sample_transfer 2]\<rparr>"

text \<open>
  A hook with no callbacks and no options of the caller's, the state it is in once the
  stream is open, the state after a first error (a reconnect timer is pending), and the
  state after two failed reconnects under a maximum of two.
\<close>

definition no_callbacks :: "unit SSECallbacks" where
  "no_callbacks = \<lparr>onTransfer = None, onCoordinated = None, onError = None, onStatusChange = None\<rparr>"

definition connected_hook :: SSEHook where
  "connected_hook =
     \<lparr>status = Connected, statusLog = [Connecting, Connected], lastEvent = None,
      sources = [\<lparr>es_url = ''https://helius.sarislabs.com/stream/all'', closed = False\<rparr>],
      eventSourceRef = Some 0, reconnectAttempts = 0, timers = [],
      reconnectTimeoutRef = None, console = [ConsoleLog ''[SSE] Connected to stream'']\<rparr>"

definition no_options :: SSEOptions where
  "no_options =
     \<lparr>enabled = None, autoReconnect = None, reconnectDelay = None,
      maxReconnectAttempts = None, url = None\<rparr>"

definition opts_max2 :: SSEOptions where
  "opts_max2 = mergeOptions (no_options\<lparr>maxReconnectAttempts := Some 2\<rparr>)"

definition exhausted_hook :: SSEHook where
  "exhausted_hook =
     fst (sse_run None (\<lambda>_. None) (\<lambda>_. None) opts_max2 no_callbacks
            [EvConnect, EvError 0, EvTimer 0, EvError 1, EvTimer 1] (SSEHook_init, ()))"

definition retrying_hook :: SSEHook where
  "retrying_hook = fst (onerror (mergeOptions no_options) no_callbacks 0 (connected_hook, ()))"

text \<open>
  Decoders that accept the empty array and nothing else, or nothing at all: enough to
  exhibit a payload that fails to parse.
\<close>

definition parse_empty_array :: "string \<Rightarrow> TransferEvent list option" where
  "parse_empty_array payload = (if payload = ''[]'' then Some [] else None)"

definition parse_nothing :: "string \<Rightarrow> CoordinatedTrade option" where
  "parse_nothing payload = None"

definition parse_empty_frame :: "string \<Rightarrow> TransferEvent Frame option" where
  "parse_empty_frame payload = (if payload = ''[]'' then Some (Many []) else None)"

definition page_with_item :: LiveFeedPage where
  "page_with_item = LiveFeedPage_init\<lparr>feedItems := [Transfer (sample_transfer 1)]\<rparr>"

section \<open>Invariant of the dashboard page\<close>

text \<open>
  \<open>keyed k d\<close>: \<open>k\<close> is the key \<open>handleCoordinated\<close> computed for \<open>d\<close> at some clock
  reading. The invariant: both mini-feeds stay within their capacities, the seen set
  holds at most 100 keys, and the keys of the trades in the coordinated mini-feed are the
  most recent entries of the seen set, in the same order.
\<close>

definition keyed :: "string \<Rightarrow> CoordinatedTrade \<Rightarrow> bool" where
  "keyed k d = (\<exists>nowISO. k = dashTradeKey nowISO d)"

definition dash_inv :: "DashboardPage \<Rightarrow> bool" where
  "dash_inv s =
     (length (recentTransfers s) \<le> MAX_LIVE_TRANSFERS
      \<and> length (recentCoordinated s) \<le> MAX_LIVE_COORDINATED
      \<and> length (seenCoordinated s) \<le> 100
      \<and> list_all2 keyed
           (take (length (recentCoordinated s)) (rev (seenCoordinated s)))
           (recentCoordinated s))"

section \<open>The bounded feeds\<close>

lemma take_Cons_take: "0 < n \<Longrightarrow> take n (x # take n xs) = take n (x # xs)"
  by (cases n) simp_all

lemma not_dup_transfer:
  assumes "list_ex (isDuplicateTransfer sg) (take n (rev (map Transfer evs)))"
  shows "sg \<in> signature ` set evs"
proof -
  from assms obtain i
    where i: "i \<in> set (take n (rev (map Transfer evs)))" "isDuplicateTransfer sg i"
    by (auto simp: list_ex_iff)
  from i(1) have "i \<in> set (rev (map Transfer evs))" by (rule in_set_takeD)
  then obtain e where "e \<in> set evs" "i = Transfer e" by auto
  with i(2) show ?thesis by auto
qed

lemma feed_transfers_run:
  assumes "distinct (map signature evs)"
  shows "foldl (\<lambda>prev e. feedUpdater (Transfer e) prev) [] evs
         = take MAX_FEED_ITEMS (rev (map Transfer evs))"
  using assms
proof (induction evs rule: rev_induct)
  case Nil
  show ?case by simp
next
  case (snoc e evs)
  let ?f = "\<lambda>prev e. feedUpdater (Transfer e) prev"
  let ?old = "take MAX_FEED_ITEMS (rev (map Transfer evs))"
  from snoc have fresh: "signature e \<notin> signature ` set evs"
    and IH: "foldl ?f [] evs = ?old" by auto
  have nd: "\<not> list_ex (isDuplicateTransfer (signature e)) ?old"
    using fresh not_dup_transfer by blast
  have pos: "0 < MAX_FEED_ITEMS" by (simp add: MAX_FEED_ITEMS_def)
  have "foldl ?f [] (evs @ [e]) = feedUpdater (Transfer e) (foldl ?f [] evs)"
    by (simp del: feedUpdater.simps)
  also have "\<dots> = feedUpdater (Transfer e) ?old"
    by (simp only: IH)
  also have "\<dots> = take MAX_FEED_ITEMS (Transfer e # ?old)"
    using nd by simp
  also have "\<dots> = take MAX_FEED_ITEMS (rev (map Transfer (evs @ [e])))"
    by (simp add: take_Cons_take [OF pos])
  finally show ?case .
qed

lemma live_run_feed:
  assumes "\<not> isPaused p"
  shows "feedItems (foldl (\<lambda>p e. live_onTransfer audio e p) p evs)
       = foldl (\<lambda>prev e. feedUpdater (Transfer e) prev) (feedItems p) evs
       \<and> \<not> isPaused (foldl (\<lambda>p e. live_onTransfer audio e p) p evs)"
  using assms
  by (induction evs rule: rev_induct)
     (simp_all add: live_onTransfer_def addFeedItem_def Let_def del: feedUpdater.simps)

lemma dash_run_transfers:
  assumes "\<not> dashPaused s" and "recentTransfers s = []"
  shows "recentTransfers (foldl (\<lambda>s e. handleTransfer e s) s evs)
       = take MAX_LIVE_TRANSFERS (rev evs)
       \<and> \<not> dashPaused (foldl (\<lambda>s e. handleTransfer e s) s evs)"
  using assms
proof (induction evs rule: rev_induct)
  case Nil
  then show ?case by simp
next
  case (snoc e evs)
  then show ?case
    by (simp add: handleTransfer_def MAX_LIVE_TRANSFERS_def)
qed

lemma sample_distinct: "distinct (map signature (sample_transfers n))"
proof -
  have "inj (\<lambda>n. signature (sample_transfer n))"
  proof (rule injI)
    fix a b assume "signature (sample_transfer a) = signature (sample_transfer b)"
    then have "replicate a CHR ''x'' = replicate b CHR ''x''"
      by (simp add: sample_transfer_def)
    then have "length (replicate a CHR ''x'') = length (replicate b CHR ''x'')" by simp
    then show "a = b" by simp
  qed
  then have "distinct (map (\<lambda>n. signature (sample_transfer n)) [0..<n])"
    by (simp add: distinct_map inj_on_def inj_def)
  then show ?thesis by (simp add: comp_def sample_transfers_def)
qed

lemma sample_truthy: "list_all (\<lambda>e. truthy (signature e)) (sample_transfers n)"
  by (simp add: sample_transfer_def sample_transfers_def truthy_def list_all_iff)

lemma sample_length: "length (sample_transfers n) = n"
  by (simp add: sample_transfers_def)

text \<open>
  C1. Transfers with distinct non-empty signatures are delivered, in order, to an empty
  feed that is not paused. On the live page the feed then holds the newest
  \<open>MAX_FEED_ITEMS = 500\<close> of them, most recent first: its length is
  \<open>min 500 count\<close>, and it is the reversed input without its \<open>count - 500\<close> oldest
  events. The dashboard's transfer mini-feed does the same with
  \<open>MAX_LIVE_TRANSFERS = 50\<close>.
\<close>

theorem bounded_feed_most_recent_first:
  assumes "distinct (map signature evs)"
    and "list_all (\<lambda>e. truthy (signature e)) evs"
    and "feedItems p = []" and "\<not> isPaused p"
    and "recentTransfers s = []" and "\<not> dashPaused s"
  shows "feedItems (foldl (\<lambda>p e. live_onTransfer audio e p) p evs)
           = take MAX_FEED_ITEMS (rev (map Transfer evs))
       \<and> length (feedItems (foldl (\<lambda>p e. live_onTransfer audio e p) p evs))
           = min MAX_FEED_ITEMS (length evs)
       \<and> feedItems (foldl (\<lambda>p e. live_onTransfer audio e p) p evs)
           = rev (map Transfer (drop (length evs - MAX_FEED_ITEMS) evs))
       \<and> recentTransfers (foldl (\<lambda>s e. handleTransfer e s) s evs)
           = take MAX_LIVE_TRANSFERS (rev evs)
       \<and> length (recentTransfers (foldl (\<lambda>s e. handleTransfer e s) s evs))
           = min MAX_LIVE_TRANSFERS (length evs)
       \<and> recentTransfers (foldl (\<lambda>s e. handleTransfer e s) s evs)
           = rev (drop (length evs - MAX_LIVE_TRANSFERS) evs)"
proof -
  let ?L = "feedItems (foldl (\<lambda>p e. live_onTransfer audio e p) p evs)"
  let ?D = "recentTransfers (foldl (\<lambda>s e. handleTransfer e s) s evs)"
  have live: "?L = take MAX_FEED_ITEMS (rev (map Transfer evs))"
    using live_run_feed [OF assms(4), of audio evs] feed_transfers_run [OF assms(1)] assms(3)
    by simp
  have dash: "?D = take MAX_LIVE_TRANSFERS (rev evs)"
    using dash_run_transfers [OF assms(6) assms(5), of evs] by simp
  have l1: "length ?L = min MAX_FEED_ITEMS (length evs)"
    by (simp only: live) simp
  have l2: "?L = rev (map Transfer (drop (length evs - MAX_FEED_ITEMS) evs))"
    by (simp only: live) (simp add: take_rev drop_map)
  have d1: "length ?D = min MAX_LIVE_TRANSFERS (length evs)"
    by (simp only: dash) simp
  have d2: "?D = rev (drop (length evs - MAX_LIVE_TRANSFERS) evs)"
    by (simp only: dash) (simp add: take_rev)
  from live l1 l2 dash d1 d2 show ?thesis by blast
qed

text \<open>
  At 501 transfers the live feed holds 500, the first one evicted; the mini-feed holds
  the last 50.
\<close>

theorem bounded_feed_most_recent_first_witness:
  "distinct (map signature (sample_transfers 501))
   \<and> list_all (\<lambda>e. truthy (signature e)) (sample_transfers 501)
   \<and> feedItems LiveFeedPage_init = [] \<and> \<not> isPaused LiveFeedPage_init
   \<and> recentTransfers (DashboardPage_init stats0) = []
   \<and> \<not> dashPaused (DashboardPage_init stats0)
   \<and> length (feedItems (foldl (\<lambda>p e. live_onTransfer True e p) LiveFeedPage_init
         (sample_transfers 501))) = 500
   \<and> feedItems (foldl (\<lambda>p e. live_onTransfer True e p) LiveFeedPage_init
         (sample_transfers 501))
       = rev (map Transfer (drop 1 (sample_transfers 501)))
   \<and> length (recentTransfers (foldl (\<lambda>s e. handleTransfer e s)
         (DashboardPage_init stats0) (sample_transfers 501))) = 50
   \<and> recentTransfers (foldl (\<lambda>s e. handleTransfer e s)
         (DashboardPage_init stats0) (sample_transfers 501))
       = rev (drop 451 (sample_transfers 501))"
proof -
  let ?evs = "sample_transfers 501"
  let ?s = "DashboardPage_init stats0"
  have h1: "distinct (map signature ?evs)" by (rule sample_distinct)
  have h2: "list_all (\<lambda>e. truthy (signature e)) ?evs" by (rule sample_truthy)
  have h3: "feedItems LiveFeedPage_init = []" by (simp add: LiveFeedPage_init_def)
  have h4: "\<not> isPaused LiveFeedPage_init" by (simp add: LiveFeedPage_init_def)
  have h5: "recentTransfers ?s = []" by (simp add: DashboardPage_init_def)
  have h6: "\<not> dashPaused ?s" by (simp add: DashboardPage_init_def)
  have n1: "min MAX_FEED_ITEMS (length ?evs) = 500"
    and n2: "length ?evs - MAX_FEED_ITEMS = 1"
    and n3: "min MAX_LIVE_TRANSFERS (length ?evs) = 50"
    and n4: "length ?evs - MAX_LIVE_TRANSFERS = 451"
    by (simp_all add: sample_length MAX_FEED_ITEMS_def MAX_LIVE_TRANSFERS_def)
  note w = bounded_feed_most_recent_first
             [OF h1 h2 h3 h4 h5 h6, of True, unfolded n1 n2 n3 n4]
  from w h1 h2 h3 h4 h5 h6 show ?thesis by blast
qed

lemma hd_take_max: "hd (take MAX_FEED_ITEMS (x # xs)) = x"
  by (simp add: MAX_FEED_ITEMS_def)

lemma addFeedItem_feed: "feedItems (addFeedItem audio item p) = feedUpdater item (feedItems p)"
  by (simp add: addFeedItem_def Let_def del: feedUpdater.simps)

text \<open>
  C5. A transfer whose signature is absent or empty is never checked against the feed:
  \<open>addFeedItem\<close> puts it at the front (and trims to 500), whatever the feed holds,
  also when the feed already holds the very same event.
\<close>

theorem signatureless_transfer_always_admitted:
  assumes "\<not> truthy (signature e)"
  shows "feedItems (addFeedItem audio (Transfer e) p)
           = take MAX_FEED_ITEMS (Transfer e # feedItems p)
       \<and> hd (feedItems (addFeedItem audio (Transfer e) p)) = Transfer e"
  using assms by (simp add: addFeedItem_feed hd_take_max)

theorem signatureless_transfer_always_admitted_witness:
  "\<not> truthy (signature unsigned_transfer)
   \<and> feedItems (addFeedItem True (Transfer unsigned_transfer)
        (LiveFeedPage_init\<lparr>feedItems := [Transfer unsigned_transfer]\<rparr>))
      = [Transfer unsigned_transfer, Transfer unsigned_transfer]
   \<and> \<not> truthy (signature blank_transfer)
   \<and> feedItems (addFeedItem True (Transfer blank_transfer)
        (LiveFeedPage_init\<lparr>feedItems := [Transfer blank_transfer]\<rparr>))
      = [Transfer blank_transfer, Transfer blank_transfer]"
proof -
  have u: "\<not> truthy (signature unsigned_transfer)"
    by (simp add: unsigned_transfer_def truthy_def)
  have b: "\<not> truthy (signature blank_transfer)"
    by (simp add: blank_transfer_def truthy_def)
  from signatureless_transfer_always_admitted [OF u, of True
         "LiveFeedPage_init\<lparr>feedItems := [Transfer unsigned_transfer]\<rparr>"]
       signatureless_transfer_always_admitted [OF b, of True
         "LiveFeedPage_init\<lparr>feedItems := [Transfer blank_transfer]\<rparr>"]
       u b
  show ?thesis by (simp add: MAX_FEED_ITEMS_def)
qed

section \<open>Duplicates\<close>

lemma rev_pruneSeen:
  "length seen \<le> 100 \<Longrightarrow> n \<le> 50 \<Longrightarrow> take n (rev (pruneSeen (seen @ [k]))) = take n (k # rev seen)"
  by (cases n) (simp_all add: pruneSeen_def rev_drop min_def)

lemma length_pruneSeen: "length seen \<le> 100 \<Longrightarrow> length (pruneSeen (seen @ [k])) \<le> 100"
  by (simp add: pruneSeen_def)

lemma dash_inv_init: "dash_inv (DashboardPage_init st)"
  by (simp add: dash_inv_def DashboardPage_init_def)

lemma dash_inv_handleTransfer: "dash_inv s \<Longrightarrow> dash_inv (handleTransfer e s)"
  by (simp add: dash_inv_def handleTransfer_def MAX_LIVE_TRANSFERS_def)

lemma dash_inv_handleCoordinated:
  assumes "dash_inv s"
  shows "dash_inv (handleCoordinated nowISO d s)"
proof (cases "dashPaused s \<or> dashTradeKey nowISO d \<in> set (seenCoordinated s)")
  case True
  with assms show ?thesis by (auto simp: handleCoordinated_def Let_def)
next
  case False
  let ?k = "dashTradeKey nowISO d"
  let ?rc = "recentCoordinated s"
  let ?seen = "seenCoordinated s"
  let ?rc' = "d # take (MAX_LIVE_COORDINATED - 1) ?rc"
  from assms have len: "length ?seen \<le> 100" and lrc: "length ?rc \<le> MAX_LIVE_COORDINATED"
    and lrt: "length (recentTransfers s) \<le> MAX_LIVE_TRANSFERS"
    and al: "list_all2 keyed (take (length ?rc) (rev ?seen)) ?rc"
    by (simp_all add: dash_inv_def)
  have n: "length ?rc' \<le> 50" "length ?rc' \<le> MAX_LIVE_COORDINATED"
    by (simp_all add: MAX_LIVE_COORDINATED_def)
  have "take (length ?rc') (rev (pruneSeen (?seen @ [?k]))) = take (length ?rc') (?k # rev ?seen)"
    using len n(1) by (rule rev_pruneSeen)
  also have "\<dots> = ?k # take (MAX_LIVE_COORDINATED - 1) (take (length ?rc) (rev ?seen))"
    by (simp add: min.commute)
  finally have eq: "take (length ?rc') (rev (pruneSeen (?seen @ [?k])))
      = ?k # take (MAX_LIVE_COORDINATED - 1) (take (length ?rc) (rev ?seen))" .
  have hd: "keyed ?k d" by (auto simp: keyed_def)
  have tl: "list_all2 keyed (take (MAX_LIVE_COORDINATED - 1) (take (length ?rc) (rev ?seen)))
              (take (MAX_LIVE_COORDINATED - 1) ?rc)"
    using al by (rule list_all2_takeI)
  have al': "list_all2 keyed (take (length ?rc') (rev (pruneSeen (?seen @ [?k])))) ?rc'"
    unfolding eq by (rule list_all2_Cons [THEN iffD2, OF conjI [OF hd tl]])
  have s': "handleCoordinated nowISO d s =
     s\<lparr>seenCoordinated := pruneSeen (?seen @ [?k]),
       toasts := toasts s @ [(getWalletCount d, take 8 (tokenAddress d))],
       stats := (stats s)\<lparr>coordinatedCount := coordinatedCount (stats s) + 1\<rparr>,
       recentCoordinated := ?rc'\<rparr>"
    using False by (simp add: handleCoordinated_def Let_def)
  show ?thesis
    unfolding s' dash_inv_def
    using al' n(2) lrt length_pruneSeen [OF len, of ?k] by simp
qed

lemma dash_inv_step: "dash_inv s \<Longrightarrow> dash_inv (dash_step a s)"
proof (cases a)
  case (ActTransfer e)
  assume "dash_inv s"
  then show ?thesis unfolding ActTransfer by (simp add: dash_inv_handleTransfer)
next
  case (ActCoordinated nowISO d)
  assume "dash_inv s"
  then show ?thesis unfolding ActCoordinated by (simp add: dash_inv_handleCoordinated)
next
  case ActTogglePause
  assume "dash_inv s"
  then show ?thesis unfolding ActTogglePause by (simp add: dash_inv_def)
next
  case ActClearLive
  assume "dash_inv s"
  then show ?thesis unfolding ActClearLive by (simp add: dash_inv_def handleClearLive_def)
qed

lemma dash_inv_run: "dash_inv s \<Longrightarrow> dash_inv (dash_run acts s)"
  unfolding dash_run_def
  by (induction acts arbitrary: s) (simp_all add: dash_inv_step)

lemma dash_inv_reachable: "dash_inv (dash_run acts (DashboardPage_init st))"
  by (rule dash_inv_run [OF dash_inv_init])

lemma buffered_key_seen:
  assumes "dash_inv s" and "d \<in> set (recentCoordinated s)"
  shows "\<exists>nowISO. dashTradeKey nowISO d \<in> set (seenCoordinated s)"
proof -
  let ?ks = "take (length (recentCoordinated s)) (rev (seenCoordinated s))"
  from assms(1) have al: "list_all2 keyed ?ks (recentCoordinated s)"
    by (simp add: dash_inv_def)
  from assms(2) obtain i where i: "i < length (recentCoordinated s)" "recentCoordinated s ! i = d"
    by (auto simp: in_set_conv_nth)
  from al i have "keyed (?ks ! i) d" and li: "i < length ?ks"
    by (auto simp: list_all2_conv_all_nth)
  then obtain nowISO where k: "?ks ! i = dashTradeKey nowISO d" by (auto simp: keyed_def)
  from li have "?ks ! i \<in> set ?ks" by (rule nth_mem)
  then have "?ks ! i \<in> set (seenCoordinated s)" by (auto dest: in_set_takeD)
  with k show ?thesis by auto
qed

lemma dashTradeKey_stable:
  "truthy (timestamp d) \<or> truthy (triggeredAt d) \<Longrightarrow> dashTradeKey a d = dashTradeKey b d"
  by (auto simp: dashTradeKey_def getTradeTimestamp_def)

lemma dash_duplicate_noop:
  assumes "dash_inv s" and "d' \<in> set (recentCoordinated s)"
    and "truthy (timestamp d') \<or> truthy (triggeredAt d')"
    and "tokenAddress d = tokenAddress d'"
    and "getTradeTimestamp nowISO d = getTradeTimestamp nowISO d'"
  shows "handleCoordinated nowISO d s = s"
proof -
  from buffered_key_seen [OF assms(1,2)] obtain t
    where "dashTradeKey t d' \<in> set (seenCoordinated s)" by blast
  moreover have "dashTradeKey t d' = dashTradeKey nowISO d'"
    using assms(3) by (rule dashTradeKey_stable)
  moreover have "dashTradeKey nowISO d' = dashTradeKey nowISO d"
    using assms(4,5) by (simp add: dashTradeKey_def)
  ultimately have "dashTradeKey nowISO d \<in> set (seenCoordinated s)" by simp
  then show ?thesis by (simp add: handleCoordinated_def Let_def)
qed

lemma live_dup_transfer:
  assumes "truthy (signature e)" and "Transfer e' \<in> set prev" and "signature e' = signature e"
  shows "feedUpdater (Transfer e) prev = prev"
proof -
  from assms(2,3) have "list_ex (isDuplicateTransfer (signature e)) prev"
    unfolding list_ex_iff by (rule_tac x="Transfer e'" in bexI) simp_all
  with assms(1) show ?thesis by simp
qed

lemma live_dup_coordinated:
  assumes "Coordinated d' \<in> set prev"
    and "tokenAddress d' = tokenAddress d" and "triggeredAt d' = triggeredAt d"
  shows "feedUpdater (Coordinated d) prev = prev"
proof -
  from assms(2,3) have "tradeKey d' = tradeKey d" by (simp add: tradeKey_def)
  with assms(1) have "list_ex (isDuplicateCoordinated (tradeKey d)) prev"
    unfolding list_ex_iff by (rule_tac x="Coordinated d'" in bexI) simp_all
  then show ?thesis by simp
qed

text \<open>
  C2, as stated, gives the coordinated trades of both buffers one key, the pair of
  \<open>tokenAddress\<close> and trigger instant. The two pages compute different keys: the live
  page reads \<open>triggeredAt\<close>, the dashboard reads \<open>getTradeTimestamp\<close>, which prefers
  \<open>timestamp\<close>. Two trades with the same token and the same \<open>triggeredAt\<close> but
  different \<open>timestamp\<close> are both admitted to the dashboard's mini-feed; two trades
  with the same token and the same \<open>timestamp\<close> but different \<open>triggeredAt\<close> are both
  admitted to the live feed.
\<close>

theorem coordinated_key_differs_between_pages:
  "tokenAddress (dated_trade ''Tok1'' ''B'' ''T'') = tokenAddress (dated_trade ''Tok1'' ''A'' ''T'')
   \<and> triggeredAt (dated_trade ''Tok1'' ''B'' ''T'') = triggeredAt (dated_trade ''Tok1'' ''A'' ''T'')
   \<and> recentCoordinated (dash_run
        [ActCoordinated ''t0'' (dated_trade ''Tok1'' ''A'' ''T''),
         ActCoordinated ''t1'' (dated_trade ''Tok1'' ''B'' ''T'')] (DashboardPage_init stats0))
     = [dated_trade ''Tok1'' ''B'' ''T'', dated_trade ''Tok1'' ''A'' ''T'']
   \<and> feedItems (foldl (\<lambda>p d. live_onCoordinated True d p) LiveFeedPage_init
        [dated_trade ''Tok1'' ''A'' ''T'', dated_trade ''Tok1'' ''B'' ''T''])
     = [Coordinated (dated_trade ''Tok1'' ''A'' ''T'')]
   \<and> getTradeTimestamp ''t1'' (dated_trade ''Tok1'' ''A'' ''U'')
     = getTradeTimestamp ''t1'' (dated_trade ''Tok1'' ''A'' ''T'')
   \<and> feedItems (foldl (\<lambda>p d. live_onCoordinated True d p) LiveFeedPage_init
        [dated_trade ''Tok1'' ''A'' ''T'', dated_trade ''Tok1'' ''A'' ''U''])
     = [Coordinated (dated_trade ''Tok1'' ''A'' ''U''),
        Coordinated (dated_trade ''Tok1'' ''A'' ''T'')]
   \<and> recentCoordinated (dash_run
        [ActCoordinated ''t0'' (dated_trade ''Tok1'' ''A'' ''T''),
         ActCoordinated ''t1'' (dated_trade ''Tok1'' ''A'' ''U'')] (DashboardPage_init stats0))
     = [dated_trade ''Tok1'' ''A'' ''T'']"
  by (simp add: live_onCoordinated_def addFeedItem_def Let_def LiveFeedPage_init_def
        tradeKey_def str_def dated_trade_def MAX_FEED_ITEMS_def
        dash_run_def handleCoordinated_def DashboardPage_init_def dashTradeKey_def
        getTradeTimestamp_def truthy_def pruneSeen_def MAX_LIVE_COORDINATED_def)

text \<open>
  C2, amended. Admitting an event whose key equals the key of a same-kind event already
  in the buffer leaves the buffer as it was, where the key is the one the page computes.
  On the live page: for a transfer its non-empty signature, for a coordinated trade the
  pair of \<open>tokenAddress\<close> and \<open>triggeredAt\<close>; \<open>feedItems\<close> is unchanged. On the
  dashboard: the pair of \<open>tokenAddress\<close> and the instant \<open>getTradeTimestamp\<close> reads
  (\<open>timestamp\<close> when non-empty, otherwise \<open>triggeredAt\<close>); in every state the page can
  reach, a trade with the token and the instant of a buffered trade that carries an
  instant leaves the whole page state unchanged.
\<close>

theorem duplicate_admission_is_noop:
  "(truthy (signature e) \<and> Transfer e' \<in> set (feedItems p) \<and> signature e' = signature e
      \<longrightarrow> feedItems (addFeedItem audio (Transfer e) p) = feedItems p)
   \<and> (Coordinated d' \<in> set (feedItems p)
        \<and> tokenAddress d' = tokenAddress d \<and> triggeredAt d' = triggeredAt d
      \<longrightarrow> feedItems (addFeedItem audio (Coordinated d) p) = feedItems p)
   \<and> (s = dash_run acts (DashboardPage_init st) \<and> c' \<in> set (recentCoordinated s)
        \<and> (truthy (timestamp c') \<or> truthy (triggeredAt c'))
        \<and> tokenAddress c = tokenAddress c'
        \<and> getTradeTimestamp nowISO c = getTradeTimestamp nowISO c'
      \<longrightarrow> handleCoordinated nowISO c s = s)"
proof (intro conjI impI)
  assume "truthy (signature e) \<and> Transfer e' \<in> set (feedItems p)
            \<and> signature e' = signature e"
  then have "feedUpdater (Transfer e) (feedItems p) = feedItems p"
    by (blast intro: live_dup_transfer)
  then show "feedItems (addFeedItem audio (Transfer e) p) = feedItems p"
    by (simp only: addFeedItem_feed)
next
  assume "Coordinated d' \<in> set (feedItems p)
            \<and> tokenAddress d' = tokenAddress d \<and> triggeredAt d' = triggeredAt d"
  then have "feedUpdater (Coordinated d) (feedItems p) = feedItems p"
    by (blast intro: live_dup_coordinated)
  then show "feedItems (addFeedItem audio (Coordinated d) p) = feedItems p"
    by (simp only: addFeedItem_feed)
next
  assume a: "s = dash_run acts (DashboardPage_init st) \<and> c' \<in> set (recentCoordinated s)
        \<and> (truthy (timestamp c') \<or> truthy (triggeredAt c'))
        \<and> tokenAddress c = tokenAddress c'
        \<and> getTradeTimestamp nowISO c = getTradeTimestamp nowISO c'"
  then have "dash_inv s" by (simp add: dash_inv_reachable)
  with a show "handleCoordinated nowISO c s = s"
    by (blast intro: dash_duplicate_noop)
qed

theorem duplicate_admission_is_noop_witness:
  "truthy (signature ((sample_transfer 1)\<lparr>amount := ''2''\<rparr>))
   \<and> Transfer (sample_transfer 1)
        \<in> set (feedItems (LiveFeedPage_init\<lparr>feedItems := [Transfer (sample_transfer 1)]\<rparr>))
   \<and> signature (sample_transfer 1) = signature ((sample_transfer 1)\<lparr>amount := ''2''\<rparr>)
   \<and> feedItems (addFeedItem True (Transfer ((sample_transfer 1)\<lparr>amount := ''2''\<rparr>))
         (LiveFeedPage_init\<lparr>feedItems := [Transfer (sample_transfer 1)]\<rparr>))
       = [Transfer (sample_transfer 1)]
   \<and> Coordinated (sample_trade ''Tok1'' ''100'')
        \<in> set (feedItems
              (LiveFeedPage_init\<lparr>feedItems := [Coordinated (sample_trade ''Tok1'' ''100'')]\<rparr>))
   \<and> feedItems (addFeedItem True
         (Coordinated ((sample_trade ''Tok1'' ''100'')\<lparr>walletCount := Some 5\<rparr>))
         (LiveFeedPage_init\<lparr>feedItems := [Coordinated (sample_trade ''Tok1'' ''100'')]\<rparr>))
       = [Coordinated (sample_trade ''Tok1'' ''100'')]
   \<and> sample_trade ''Tok1'' ''100''
        \<in> set (recentCoordinated
              (dash_run [ActCoordinated ''t0'' (sample_trade ''Tok1'' ''100'')]
                 (DashboardPage_init stats0)))
   \<and> truthy (triggeredAt (sample_trade ''Tok1'' ''100''))
   \<and> handleCoordinated ''t1'' ((sample_trade ''Tok1'' ''100'')\<lparr>walletCount := Some 5\<rparr>)
         (dash_run [ActCoordinated ''t0'' (sample_trade ''Tok1'' ''100'')]
            (DashboardPage_init stats0))
       = dash_run [ActCoordinated ''t0'' (sample_trade ''Tok1'' ''100'')]
            (DashboardPage_init stats0)"
proof -
  let ?e' = "sample_transfer 1"
  let ?e = "(sample_transfer 1)\<lparr>amount := ''2''\<rparr>"
  let ?p = "LiveFeedPage_init\<lparr>feedItems := [Transfer ?e']\<rparr>"
  let ?d' = "sample_trade ''Tok1'' ''100''"
  let ?d = "(sample_trade ''Tok1'' ''100'')\<lparr>walletCount := Some 5\<rparr>"
  let ?q = "LiveFeedPage_init\<lparr>feedItems := [Coordinated ?d']\<rparr>"
  let ?acts = "[ActCoordinated ''t0'' ?d']"
  let ?s = "dash_run ?acts (DashboardPage_init stats0)"
  have t1: "truthy (signature ?e)" by (simp add: sample_transfer_def truthy_def)
  have t2: "Transfer ?e' \<in> set (feedItems ?p)" by simp
  have t3: "signature ?e' = signature ?e" by simp
  have c1: "Coordinated ?d' \<in> set (feedItems ?q)" by simp
  have c2: "tokenAddress ?d' = tokenAddress ?d" "triggeredAt ?d' = triggeredAt ?d" by simp_all
  have rc: "recentCoordinated ?s = [?d']"
    by (simp add: dash_run_def handleCoordinated_def DashboardPage_init_def Let_def
          pruneSeen_def)
  have k1: "?d' \<in> set (recentCoordinated ?s)" by (simp only: rc) simp
  have k2: "truthy (triggeredAt ?d')" by (simp add: sample_trade_def truthy_def)
  have k3: "tokenAddress ?d = tokenAddress ?d'"
    "getTradeTimestamp ''t1'' ?d = getTradeTimestamp ''t1'' ?d'"
    by (simp_all add: getTradeTimestamp_def)
  note noop = duplicate_admission_is_noop
                 [of ?e ?e' ?p True ?d' ?d ?s ?acts stats0 ?d' ?d "''t1''"]
  note noop' = duplicate_admission_is_noop
                 [of ?e ?e' ?q True ?d' ?d ?s ?acts stats0 ?d' ?d "''t1''"]
  have A: "feedItems (addFeedItem True (Transfer ?e) ?p) = [Transfer ?e']"
    using noop [THEN conjunct1, THEN mp, OF conjI [OF t1 conjI [OF t2 t3]]] by simp
  have B: "feedItems (addFeedItem True (Coordinated ?d) ?q) = [Coordinated ?d']"
    using noop' [THEN conjunct2, THEN conjunct1, THEN mp, OF conjI [OF c1 conjI [OF c2]]]
    by simp
  have k: "truthy (timestamp ?d') \<or> truthy (triggeredAt ?d')" using k2 by (rule disjI2)
  have C: "handleCoordinated ''t1'' ?d ?s = ?s"
    by (rule noop [THEN conjunct2, THEN conjunct2, THEN mp,
                   OF conjI [OF refl conjI [OF k1 conjI [OF k conjI [OF k3]]]]])
  show ?thesis
    by (intro conjI) (rule t1 t2 t3 A c1 B k1 k2 C)+
qed

text \<open>
  The trades keyed (Tok1, 100), (Tok1, 100), (Tok1, 200), delivered in this order: the
  second is rejected, on the live page and on the dashboard.
\<close>

lemma coordinated_scenario:
  "map tradeKey [sample_trade ''Tok1'' ''100'', sample_trade ''Tok1'' ''200'']
     = [''Tok1-100'', ''Tok1-200'']
   \<and> feedItems (foldl (\<lambda>p d. live_onCoordinated True d p) LiveFeedPage_init
        [sample_trade ''Tok1'' ''100'', sample_trade ''Tok1'' ''100'',
         sample_trade ''Tok1'' ''200''])
     = [Coordinated (sample_trade ''Tok1'' ''200''), Coordinated (sample_trade ''Tok1'' ''100'')]
   \<and> recentCoordinated (dash_run
        [ActCoordinated ''t0'' (sample_trade ''Tok1'' ''100''),
         ActCoordinated ''t1'' (sample_trade ''Tok1'' ''100''),
         ActCoordinated ''t2'' (sample_trade ''Tok1'' ''200'')] (DashboardPage_init stats0))
     = [sample_trade ''Tok1'' ''200'', sample_trade ''Tok1'' ''100'']"
  by (simp add: live_onCoordinated_def addFeedItem_def Let_def LiveFeedPage_init_def
        tradeKey_def str_def sample_trade_def MAX_FEED_ITEMS_def
        dash_run_def handleCoordinated_def DashboardPage_init_def dashTradeKey_def
        getTradeTimestamp_def truthy_def pruneSeen_def MAX_LIVE_COORDINATED_def)

section \<open>The sound cue\<close>

lemma addFeedItem_played:
  "soundEnabled p \<Longrightarrow>
   played (addFeedItem audio item p) = playNotificationSound audio (item_type item) (played p)"
  by (simp add: addFeedItem_def Let_def del: feedUpdater.simps)

text \<open>
  C9. With sound enabled, every call of \<open>addFeedItem\<close> calls
  \<open>playNotificationSound\<close>, which (where the platform can play audio) starts a tone of
  880 Hz for a coordinated trade and 440 Hz for a transfer. This does not depend on the
  outcome of the duplicate check: for a rejected duplicate the feed is unchanged and the
  tone is played all the same.
\<close>

theorem sound_fires_even_for_duplicates:
  assumes "soundEnabled p"
  shows "played (addFeedItem audio item p)
           = playNotificationSound audio (item_type item) (played p)
       \<and> (audio \<longrightarrow> played (addFeedItem audio item p)
              = played p @ [if item_type item = TypeCoordinated then 880 else 440])
       \<and> (audio \<and> truthy (signature e)
            \<and> list_ex (isDuplicateTransfer (signature e)) (feedItems p)
          \<longrightarrow> feedItems (addFeedItem audio (Transfer e) p) = feedItems p
              \<and> played (addFeedItem audio (Transfer e) p) = played p @ [440])
       \<and> (audio \<and> list_ex (isDuplicateCoordinated (tradeKey d)) (feedItems p)
          \<longrightarrow> feedItems (addFeedItem audio (Coordinated d) p) = feedItems p
              \<and> played (addFeedItem audio (Coordinated d) p) = played p @ [880])"
  using assms
  by (simp add: addFeedItem_played addFeedItem_feed playNotificationSound_def)

theorem sound_fires_even_for_duplicates_witness:
  "soundEnabled (LiveFeedPage_init\<lparr>soundEnabled := True, feedItems := [Transfer (sample_transfer 1)]\<rparr>)
   \<and> truthy (signature (sample_transfer 1))
   \<and> list_ex (isDuplicateTransfer (signature (sample_transfer 1)))
        (feedItems (LiveFeedPage_init\<lparr>soundEnabled := True, feedItems := [Transfer (sample_transfer 1)]\<rparr>))
   \<and> feedItems (addFeedItem True (Transfer (sample_transfer 1))
        (LiveFeedPage_init\<lparr>soundEnabled := True, feedItems := [Transfer (sample_transfer 1)]\<rparr>))
       = [Transfer (sample_transfer 1)]
   \<and> played (addFeedItem True (Transfer (sample_transfer 1))
        (LiveFeedPage_init\<lparr>soundEnabled := True, feedItems := [Transfer (sample_transfer 1)]\<rparr>))
       = [440]"
proof -
  let ?e = "sample_transfer 1"
  let ?p = "LiveFeedPage_init\<lparr>soundEnabled := True, feedItems := [Transfer ?e]\<rparr>"
  have h: "soundEnabled ?p" by simp
  have t: "truthy (signature ?e)" by (simp add: sample_transfer_def truthy_def)
  have d: "list_ex (isDuplicateTransfer (signature ?e)) (feedItems ?p)" by simp
  note w = sound_fires_even_for_duplicates [OF h, of True "Transfer ?e" ?e "sample_trade ''Tok1'' ''100''"]
  have "feedItems (addFeedItem True (Transfer ?e) ?p) = feedItems ?p
        \<and> played (addFeedItem True (Transfer ?e) ?p) = played ?p @ [440]"
    by (rule w [THEN conjunct2, THEN conjunct2, THEN conjunct1, THEN mp,
                OF conjI [OF TrueI conjI [OF t d]]])
  then have r: "feedItems (addFeedItem True (Transfer ?e) ?p) = [Transfer ?e]"
      "played (addFeedItem True (Transfer ?e) ?p) = [440]"
    by (simp_all add: LiveFeedPage_init_def)
  show ?thesis by (intro conjI) (rule h t d r)+
qed

section \<open>The seen set of the dashboard\<close>

lemma dash_run_snoc: "dash_run (acts @ [a]) s = dash_step a (dash_run acts s)"
  by (simp add: dash_run_def)

lemma nth_key: "dashTradeKey t (nth_trade i) = ''Tok-1'' @ replicate i CHR ''0''"
  by (simp add: dashTradeKey_def getTradeTimestamp_def sample_trade_def nth_trade_def truthy_def)

lemma nth_key_fresh: "dashTradeKey t (nth_trade n) \<notin> set (sample_keys n)"
proof
  assume "dashTradeKey t (nth_trade n) \<in> set (sample_keys n)"
  then obtain i where "i < n" "''Tok-1'' @ replicate n CHR ''0'' = ''Tok-1'' @ replicate i CHR ''0''"
    by (auto simp: sample_keys_def nth_key)
  then have "replicate n CHR ''0'' = replicate i CHR ''0''" "i < n" by simp_all
  then have "length (replicate n CHR ''0'') = length (replicate i CHR ''0'')" by simp
  with \<open>i < n\<close> show False by simp
qed

lemma sample_keys_length: "length (sample_keys n) = n"
  by (simp add: sample_keys_def)

lemma run_sample_trades:
  "n \<le> 100 \<Longrightarrow>
   seenCoordinated (dash_run (sample_trades n) (DashboardPage_init st)) = sample_keys n
   \<and> \<not> dashPaused (dash_run (sample_trades n) (DashboardPage_init st))"
proof (induction n)
  case 0
  show ?case by (simp add: sample_trades_def sample_keys_def dash_run_def DashboardPage_init_def)
next
  case (Suc n)
  let ?s = "dash_run (sample_trades n) (DashboardPage_init st)"
  from Suc have IH: "seenCoordinated ?s = sample_keys n" "\<not> dashPaused ?s" by simp_all
  have st: "sample_trades (Suc n) = sample_trades n @ [ActCoordinated ''now'' (nth_trade n)]"
    by (simp add: sample_trades_def)
  have ks: "sample_keys (Suc n) = sample_keys n @ [dashTradeKey ''now'' (nth_trade n)]"
    by (simp add: sample_keys_def)
  have np: "pruneSeen (sample_keys (Suc n)) = sample_keys (Suc n)"
    using Suc.prems by (simp add: pruneSeen_def sample_keys_length)
  show ?case
    unfolding st dash_run_snoc
    using IH nth_key_fresh [of "''now''" n] np
    by (simp add: handleCoordinated_def Let_def ks)
qed

text \<open>
  C7. The seen set of coordinated-trade keys is a field of its own, untouched by
  \<open>handleTransfer\<close> and by the clear button. In every state the dashboard can reach it
  holds at most 100 keys. An admission that finds 100 keys adds the 101st and prunes the
  set to its 50 most recent entries (the new key and the 49 before it); an admission that
  finds fewer appends its key.
\<close>

theorem seen_memory_bounded:
  "length (seenCoordinated (dash_run acts (DashboardPage_init st))) \<le> 100
   \<and> (\<not> dashPaused s \<and> dashTradeKey nowISO d \<notin> set (seenCoordinated s)
        \<and> length (seenCoordinated s) = 100
      \<longrightarrow> seenCoordinated (handleCoordinated nowISO d s)
            = drop 51 (seenCoordinated s) @ [dashTradeKey nowISO d]
          \<and> length (seenCoordinated (handleCoordinated nowISO d s)) = 50)
   \<and> (\<not> dashPaused s \<and> dashTradeKey nowISO d \<notin> set (seenCoordinated s)
        \<and> length (seenCoordinated s) < 100
      \<longrightarrow> seenCoordinated (handleCoordinated nowISO d s)
            = seenCoordinated s @ [dashTradeKey nowISO d])
   \<and> seenCoordinated (handleTransfer e s) = seenCoordinated s
   \<and> seenCoordinated (handleClearLive s) = seenCoordinated s"
proof (intro conjI impI)
  show "length (seenCoordinated (dash_run acts (DashboardPage_init st))) \<le> 100"
    using dash_inv_reachable [of acts st] by (simp add: dash_inv_def)
next
  assume a: "\<not> dashPaused s \<and> dashTradeKey nowISO d \<notin> set (seenCoordinated s)
        \<and> length (seenCoordinated s) = 100"
  then show "seenCoordinated (handleCoordinated nowISO d s)
            = drop 51 (seenCoordinated s) @ [dashTradeKey nowISO d]"
    by (simp add: handleCoordinated_def Let_def pruneSeen_def)
  from a show "length (seenCoordinated (handleCoordinated nowISO d s)) = 50"
    by (simp add: handleCoordinated_def Let_def pruneSeen_def)
next
  assume "\<not> dashPaused s \<and> dashTradeKey nowISO d \<notin> set (seenCoordinated s)
        \<and> length (seenCoordinated s) < 100"
  then show "seenCoordinated (handleCoordinated nowISO d s)
            = seenCoordinated s @ [dashTradeKey nowISO d]"
    by (simp add: handleCoordinated_def Let_def pruneSeen_def)
next
  show "seenCoordinated (handleTransfer e s) = seenCoordinated s"
    by (simp add: handleTransfer_def)
next
  show "seenCoordinated (handleClearLive s) = seenCoordinated s"
    by (simp add: handleClearLive_def)
qed

theorem seen_memory_bounded_witness:
  "\<not> dashPaused (dash_run (sample_trades 100) (DashboardPage_init stats0))
   \<and> dashTradeKey ''now'' (nth_trade 100)
        \<notin> set (seenCoordinated (dash_run (sample_trades 100) (DashboardPage_init stats0)))
   \<and> length (seenCoordinated (dash_run (sample_trades 100) (DashboardPage_init stats0))) = 100
   \<and> seenCoordinated (dash_run (sample_trades 101) (DashboardPage_init stats0))
       = drop 51 (sample_keys 101)
   \<and> length (seenCoordinated (dash_run (sample_trades 101) (DashboardPage_init stats0))) = 50
   \<and> \<not> dashPaused (dash_run (sample_trades 3) (DashboardPage_init stats0))
   \<and> dashTradeKey ''now'' (nth_trade 3)
        \<notin> set (seenCoordinated (dash_run (sample_trades 3) (DashboardPage_init stats0)))
   \<and> length (seenCoordinated (dash_run (sample_trades 3) (DashboardPage_init stats0))) < 100
   \<and> seenCoordinated (dash_run (sample_trades 4) (DashboardPage_init stats0)) = sample_keys 4"
proof -
  let ?s = "dash_run (sample_trades 100) (DashboardPage_init stats0)"
  let ?t = "dash_run (sample_trades 3) (DashboardPage_init stats0)"
  have s: "seenCoordinated ?s = sample_keys 100" "\<not> dashPaused ?s"
    using run_sample_trades [of 100 stats0] by simp_all
  have t: "seenCoordinated ?t = sample_keys 3" "\<not> dashPaused ?t"
    using run_sample_trades [of 3 stats0] by simp_all
  have f: "dashTradeKey ''now'' (nth_trade 100) \<notin> set (seenCoordinated ?s)"
    unfolding s by (rule nth_key_fresh)
  have g: "dashTradeKey ''now'' (nth_trade 3) \<notin> set (seenCoordinated ?t)"
    unfolding t by (rule nth_key_fresh)
  have l: "length (seenCoordinated ?s) = 100" unfolding s by (rule sample_keys_length)
  have m: "length (seenCoordinated ?t) < 100" unfolding t by (simp add: sample_keys_length)
  have r101: "dash_run (sample_trades 101) (DashboardPage_init stats0)
               = handleCoordinated ''now'' (nth_trade 100) ?s"
  proof -
    have "sample_trades (Suc 100) = sample_trades 100 @ [ActCoordinated ''now'' (nth_trade 100)]"
      unfolding sample_trades_def by (simp only: upt_Suc_append le0 map_append list.map)
    then show ?thesis by (simp add: dash_run_snoc)
  qed
  have r4: "dash_run (sample_trades 4) (DashboardPage_init stats0)
               = handleCoordinated ''now'' (nth_trade 3) ?t"
  proof -
    have "sample_trades (Suc 3) = sample_trades 3 @ [ActCoordinated ''now'' (nth_trade 3)]"
      unfolding sample_trades_def by (simp only: upt_Suc_append le0 map_append list.map)
    then show ?thesis by (simp add: dash_run_snoc)
  qed
  have k: "sample_keys (Suc n) = sample_keys n @ [dashTradeKey ''now'' (nth_trade n)]" for n
    unfolding sample_keys_def by (simp only: upt_Suc_append le0 map_append list.map)
  have k101: "sample_keys 101 = sample_keys 100 @ [dashTradeKey ''now'' (nth_trade 100)]"
    using k [of 100] by simp
  have k4: "sample_keys 4 = sample_keys 3 @ [dashTradeKey ''now'' (nth_trade 3)]"
    using k [of 3] by simp
  note w = seen_memory_bounded [of "[]" stats0 ?s "''now''" "nth_trade 100" "sample_transfer 0"]
  note v = seen_memory_bounded [of "[]" stats0 ?t "''now''" "nth_trade 3" "sample_transfer 0"]
  have big: "seenCoordinated (handleCoordinated ''now'' (nth_trade 100) ?s)
            = drop 51 (seenCoordinated ?s) @ [dashTradeKey ''now'' (nth_trade 100)]
          \<and> length (seenCoordinated (handleCoordinated ''now'' (nth_trade 100) ?s)) = 50"
    by (rule w [THEN conjunct2, THEN conjunct1, THEN mp, OF conjI [OF s(2) conjI [OF f l]]])
  have small: "seenCoordinated (handleCoordinated ''now'' (nth_trade 3) ?t)
            = seenCoordinated ?t @ [dashTradeKey ''now'' (nth_trade 3)]"
    by (rule v [THEN conjunct2, THEN conjunct2, THEN conjunct1, THEN mp,
                OF conjI [OF t(2) conjI [OF g m]]])
  have c1: "seenCoordinated (dash_run (sample_trades 101) (DashboardPage_init stats0))
       = drop 51 (sample_keys 101)"
  proof -
    have "seenCoordinated (dash_run (sample_trades 101) (DashboardPage_init stats0))
            = drop 51 (sample_keys 100) @ [dashTradeKey ''now'' (nth_trade 100)]"
      using big [THEN conjunct1] by (simp only: r101 s(1))
    also have "\<dots> = drop 51 (sample_keys 101)"
      by (simp only: k101) (simp add: sample_keys_length)
    finally show ?thesis .
  qed
  have c2: "length (seenCoordinated (dash_run (sample_trades 101) (DashboardPage_init stats0))) = 50"
    using big [THEN conjunct2] by (simp only: r101)
  have c3: "seenCoordinated (dash_run (sample_trades 4) (DashboardPage_init stats0)) = sample_keys 4"
    using small by (simp only: r4 t(1) k4)
  show ?thesis by (intro conjI) (rule s(2) f l c1 c2 t(2) g m c3)+
qed

section \<open>Capacities and independence of the buffers\<close>

lemma feedUpdater_length:
  "length prev \<le> MAX_FEED_ITEMS \<Longrightarrow> length (feedUpdater item prev) \<le> MAX_FEED_ITEMS"
  by (cases item) simp_all

text \<open>
  C6, as stated, gives every buffer a dedup set of its own. The transfer mini-feed of
  the dashboard has none: \<open>handleTransfer\<close> makes no duplicate check, and a transfer
  delivered twice with the same signature is in the mini-feed twice.
\<close>

theorem transfer_minifeed_admits_duplicates:
  "signature (sample_transfer 1) = Some ''Sx''
   \<and> recentTransfers (handleTransfer (sample_transfer 1) (DashboardPage_init stats0))
       = [sample_transfer 1]
   \<and> recentTransfers (handleTransfer (sample_transfer 1)
        (handleTransfer (sample_transfer 1) (DashboardPage_init stats0)))
       = [sample_transfer 1, sample_transfer 1]"
  by (simp add: handleTransfer_def DashboardPage_init_def MAX_LIVE_TRANSFERS_def
        sample_transfer_def)

text \<open>
  C6, amended. The capacities are the constants \<open>MAX_FEED_ITEMS\<close>,
  \<open>MAX_LIVE_TRANSFERS\<close> and \<open>MAX_LIVE_COORDINATED\<close>; no state holds them and every
  admission keeps the buffer within its own. The combined feed checks duplicates against
  its own contents only (its new contents are a function of its old contents and the
  item), the coordinated mini-feed against its own seen set only, and the transfer
  mini-feed makes no duplicate check: unless the page is paused it admits every
  transfer. \<open>handleTransfer\<close> neither reads nor writes the coordinated mini-feed and
  the seen set; \<open>handleCoordinated\<close> neither reads nor writes the transfer mini-feed.
  (The combined feed belongs to another page and another state type.)
\<close>

theorem buffers_bounded_and_independent:
  "length (recentTransfers (dash_run acts (DashboardPage_init st))) \<le> MAX_LIVE_TRANSFERS
   \<and> length (recentCoordinated (dash_run acts (DashboardPage_init st)))
        \<le> MAX_LIVE_COORDINATED
   \<and> (length (feedItems p) \<le> MAX_FEED_ITEMS
        \<longrightarrow> length (feedItems (addFeedItem audio item p)) \<le> MAX_FEED_ITEMS)
   \<and> feedItems (addFeedItem audio item p) = feedUpdater item (feedItems p)
   \<and> recentCoordinated (handleTransfer e s) = recentCoordinated s
   \<and> seenCoordinated (handleTransfer e s) = seenCoordinated s
   \<and> recentTransfers (handleCoordinated nowISO d s) = recentTransfers s
   \<and> (recentTransfers s = recentTransfers s' \<and> dashPaused s = dashPaused s'
        \<longrightarrow> recentTransfers (handleTransfer e s) = recentTransfers (handleTransfer e s'))
   \<and> (recentCoordinated s = recentCoordinated s' \<and> seenCoordinated s = seenCoordinated s'
        \<and> dashPaused s = dashPaused s'
        \<longrightarrow> recentCoordinated (handleCoordinated nowISO d s)
              = recentCoordinated (handleCoordinated nowISO d s')
            \<and> seenCoordinated (handleCoordinated nowISO d s)
              = seenCoordinated (handleCoordinated nowISO d s'))
   \<and> (\<not> dashPaused s
        \<longrightarrow> recentTransfers (handleTransfer e s)
              = e # take (MAX_LIVE_TRANSFERS - 1) (recentTransfers s))"
proof (intro conjI impI)
  show "length (recentTransfers (dash_run acts (DashboardPage_init st))) \<le> MAX_LIVE_TRANSFERS"
    using dash_inv_reachable [of acts st] by (simp add: dash_inv_def)
  show "length (recentCoordinated (dash_run acts (DashboardPage_init st)))
        \<le> MAX_LIVE_COORDINATED"
    using dash_inv_reachable [of acts st] by (simp add: dash_inv_def)
  show "feedItems (addFeedItem audio item p) = feedUpdater item (feedItems p)"
    by (rule addFeedItem_feed)
  show "recentCoordinated (handleTransfer e s) = recentCoordinated s"
    by (simp add: handleTransfer_def)
  show "seenCoordinated (handleTransfer e s) = seenCoordinated s"
    by (simp add: handleTransfer_def)
  show "recentTransfers (handleCoordinated nowISO d s) = recentTransfers s"
    by (simp add: handleCoordinated_def Let_def)
next
  assume "length (feedItems p) \<le> MAX_FEED_ITEMS"
  then show "length (feedItems (addFeedItem audio item p)) \<le> MAX_FEED_ITEMS"
    by (simp only: addFeedItem_feed feedUpdater_length)
next
  assume "recentTransfers s = recentTransfers s' \<and> dashPaused s = dashPaused s'"
  then show "recentTransfers (handleTransfer e s) = recentTransfers (handleTransfer e s')"
    by (simp add: handleTransfer_def)
next
  assume a: "recentCoordinated s = recentCoordinated s' \<and> seenCoordinated s = seenCoordinated s'
        \<and> dashPaused s = dashPaused s'"
  then show "recentCoordinated (handleCoordinated nowISO d s)
              = recentCoordinated (handleCoordinated nowISO d s')"
    by (simp add: handleCoordinated_def Let_def)
  from a show "seenCoordinated (handleCoordinated nowISO d s)
              = seenCoordinated (handleCoordinated nowISO d s')"
    by (simp add: handleCoordinated_def Let_def)
next
  assume "\<not> dashPaused s"
  then show "recentTransfers (handleTransfer e s)
              = e # take (MAX_LIVE_TRANSFERS - 1) (recentTransfers s)"
    by (simp add: handleTransfer_def)
qed

theorem buffers_bounded_and_independent_witness:
  "length (feedItems LiveFeedPage_init) \<le> MAX_FEED_ITEMS
   \<and> length (feedItems (addFeedItem True (Transfer (sample_transfer 1)) LiveFeedPage_init))
        \<le> MAX_FEED_ITEMS
   \<and> recentTransfers (DashboardPage_init stats0) = recentTransfers dash_with_trade
   \<and> dashPaused (DashboardPage_init stats0) = dashPaused dash_with_trade
   \<and> recentTransfers (handleTransfer (sample_transfer 1) (DashboardPage_init stats0))
       = recentTransfers (handleTransfer (sample_transfer 1) dash_with_trade)
   \<and> recentCoordinated (DashboardPage_init stats0) = recentCoordinated dash_with_transfer
   \<and> seenCoordinated (DashboardPage_init stats0) = seenCoordinated dash_with_transfer
   \<and> dashPaused (DashboardPage_init stats0) = dashPaused dash_with_transfer
   \<and> recentCoordinated (handleCoordinated ''now'' (nth_trade 1) (DashboardPage_init stats0))
       = recentCoordinated (handleCoordinated ''now'' (nth_trade 1) dash_with_transfer)
   \<and> seenCoordinated (handleCoordinated ''now'' (nth_trade 1) (DashboardPage_init stats0))
       = seenCoordinated (handleCoordinated ''now'' (nth_trade 1) dash_with_transfer)
   \<and> \<not> dashPaused dash_with_transfer
   \<and> recentTransfers (handleTransfer (sample_transfer 1) dash_with_transfer)
       = [sample_transfer 1, sample_transfer 2]"
proof -
  let ?s = "DashboardPage_init stats0"
  let ?e = "sample_transfer 1"
  let ?d = "nth_trade 1"
  note a = buffers_bounded_and_independent
             [of "[]" stats0 LiveFeedPage_init True "Transfer ?e" ?e ?s "''now''" ?d
                 dash_with_trade]
  note b = buffers_bounded_and_independent
             [of "[]" stats0 LiveFeedPage_init True "Transfer ?e" ?e ?s "''now''" ?d
                 dash_with_transfer]
  note c = buffers_bounded_and_independent
             [of "[]" stats0 LiveFeedPage_init True "Transfer ?e" ?e dash_with_transfer
                 "''now''" ?d ?s]
  have h1: "length (feedItems LiveFeedPage_init) \<le> MAX_FEED_ITEMS"
    by (simp add: LiveFeedPage_init_def)
  have h2: "recentTransfers ?s = recentTransfers dash_with_trade"
    and h3: "dashPaused ?s = dashPaused dash_with_trade"
    by (simp_all add: dash_with_trade_def)
  have h4: "recentCoordinated ?s = recentCoordinated dash_with_transfer"
    and h5: "seenCoordinated ?s = seenCoordinated dash_with_transfer"
    and h6: "dashPaused ?s = dashPaused dash_with_transfer"
    by (simp_all add: dash_with_transfer_def)
  have h7: "\<not> dashPaused dash_with_transfer"
    by (simp add: dash_with_transfer_def DashboardPage_init_def)
  note r = conjunct2 [THEN conjunct2]
  have c1: "length (feedItems (addFeedItem True (Transfer ?e) LiveFeedPage_init))
             \<le> MAX_FEED_ITEMS"
    by (rule a [THEN r, THEN conjunct1, THEN mp, OF h1])
  have c2: "recentTransfers (handleTransfer ?e ?s)
             = recentTransfers (handleTransfer ?e dash_with_trade)"
    by (rule a [THEN r, THEN r, THEN r, THEN conjunct2, THEN conjunct1, THEN mp,
                OF conjI [OF h2 h3]])
  have c3: "recentCoordinated (handleCoordinated ''now'' ?d ?s)
              = recentCoordinated (handleCoordinated ''now'' ?d dash_with_transfer)
            \<and> seenCoordinated (handleCoordinated ''now'' ?d ?s)
              = seenCoordinated (handleCoordinated ''now'' ?d dash_with_transfer)"
    by (rule b [THEN r, THEN r, THEN r, THEN r, THEN conjunct1, THEN mp,
                OF conjI [OF h4 conjI [OF h5 h6]]])
  have "recentTransfers (handleTransfer ?e dash_with_transfer)
          = ?e # take (MAX_LIVE_TRANSFERS - 1) (recentTransfers dash_with_transfer)"
    by (rule c [THEN r, THEN r, THEN r, THEN r, THEN conjunct2, THEN mp, OF h7])
  then have c4: "recentTransfers (handleTransfer ?e dash_with_transfer)
                   = [?e, sample_transfer 2]"
    by (simp add: dash_with_transfer_def MAX_LIVE_TRANSFERS_def)
  show ?thesis
    by (intro conjI) (rule h1 c1 h2 h3 c2 h4 h5 h6 c3 [THEN conjunct1] c3 [THEN conjunct2] h7 c4)+
qed

section \<open>The connection manager\<close>

lemma updateStatus_simps:
  "fst (updateStatus cb st hc) = setStatus st (fst hc)"
  "snd (updateStatus cb st hc) = call1 (onStatusChange cb) st (snd hc)"
  by (simp_all add: updateStatus_def)

lemma closeSource_fields:
  "status (closeSource i h) = status h"
  "statusLog (closeSource i h) = statusLog h"
  "lastEvent (closeSource i h) = lastEvent h"
  "eventSourceRef (closeSource i h) = eventSourceRef h"
  "reconnectAttempts (closeSource i h) = reconnectAttempts h"
  "timers (closeSource i h) = timers h"
  "reconnectTimeoutRef (closeSource i h) = reconnectTimeoutRef h"
  "console (closeSource i h) = console h"
  "length (sources (closeSource i h)) = length (sources h)"
  by (simp_all add: closeSource_def)

lemma closeSource_closed:
  "i < length (sources h) \<Longrightarrow> closed (sources (closeSource i h) ! i)"
  by (simp add: closeSource_def)

lemma closeSource_idem: "closeSource i (closeSource i h) = closeSource i h"
  by (simp add: closeSource_def)

lemma setStatus_fields:
  "status (setStatus st h) = st"
  "statusLog (setStatus st h) = statusLog h @ [st]"
  "lastEvent (setStatus st h) = lastEvent h"
  "sources (setStatus st h) = sources h"
  "eventSourceRef (setStatus st h) = eventSourceRef h"
  "reconnectAttempts (setStatus st h) = reconnectAttempts h"
  "timers (setStatus st h) = timers h"
  "reconnectTimeoutRef (setStatus st h) = reconnectTimeoutRef h"
  "console (setStatus st h) = console h"
  by (simp_all add: setStatus_def)

lemma logged_fields:
  "status (logged e h) = status h"
  "statusLog (logged e h) = statusLog h"
  "lastEvent (logged e h) = lastEvent h"
  "sources (logged e h) = sources h"
  "eventSourceRef (logged e h) = eventSourceRef h"
  "reconnectAttempts (logged e h) = reconnectAttempts h"
  "timers (logged e h) = timers h"
  "reconnectTimeoutRef (logged e h) = reconnectTimeoutRef h"
  "console (logged e h) = console h @ [e]"
  by (simp_all add: logged_def)

lemma setTimeout_fields:
  "status (setTimeout_connect d h) = status h"
  "statusLog (setTimeout_connect d h) = statusLog h"
  "lastEvent (setTimeout_connect d h) = lastEvent h"
  "sources (setTimeout_connect d h) = sources h"
  "eventSourceRef (setTimeout_connect d h) = eventSourceRef h"
  "reconnectAttempts (setTimeout_connect d h) = reconnectAttempts h"
  "timers (setTimeout_connect d h) = timers h @ [(d, Pending)]"
  "reconnectTimeoutRef (setTimeout_connect d h) = Some (length (timers h))"
  "console (setTimeout_connect d h) = console h"
  by (simp_all add: setTimeout_connect_def)

lemmas hook_fields =
  updateStatus_simps closeSource_fields setStatus_fields logged_fields setTimeout_fields

lemmas hook_defs =
  sse_run_def connect_def onopen_def onerror_def disconnect_def timerFired_def Let_def
  updateStatus_def setStatus_def clearReconnectTimeout_def clearTimeout_def closeSource_def
  newEventSource_def setTimeout_connect_def logged_def call0_def call1_def
  orStr_def orNum_def isTrue_def truthy_def mergeOptions_def DEFAULT_OPTIONS_def spread_def

lemma connected_hook_reached:
  "sse_run None pt pc (mergeOptions no_options) no_callbacks [EvConnect, EvOpen] (SSEHook_init, ())
     = (connected_hook, ())"
  by (simp add: sse_run_def connect_def onopen_def Let_def updateStatus_def setStatus_def
        clearReconnectTimeout_def SSEHook_init_def newEventSource_def logged_def connected_hook_def
        call1_def no_callbacks_def orStr_def truthy_def mergeOptions_def no_options_def
        DEFAULT_OPTIONS_def spread_def)

lemma exhausted_hook_fields:
  "reconnectAttempts exhausted_hook = 2"
  "timers exhausted_hook = [(5000, Fired), (5000, Fired)]"
  "reconnectTimeoutRef exhausted_hook = None"
  "status exhausted_hook = Connecting"
  "length (sources exhausted_hook) = 3"
  by (simp_all add: exhausted_hook_def opts_max2_def hook_defs SSEHook_init_def no_callbacks_def
        no_options_def)

lemma retrying_hook_fields:
  "reconnectTimeoutRef retrying_hook = Some 0"
  "timers retrying_hook = [(5000, Pending)]"
  "eventSourceRef retrying_hook = Some 0"
  "reconnectAttempts retrying_hook = 1"
  "status retrying_hook = Error"
  by (simp_all add: retrying_hook_def hook_defs connected_hook_def no_callbacks_def no_options_def)

text \<open>
  What the two error handlers do, in every state: \<open>useSSE\<close> (\<open>h'\<close>) and
  \<open>useTransferStream\<close> (\<open>t'\<close>) first set the status to \<open>error\<close> and close the source
  the error came from. If auto-reconnect is enabled and the attempt counter is strictly
  below the maximum (\<open>maxReconnectAttempts || 10\<close>), the counter is incremented and one
  timer is scheduled with the delay \<open>reconnectDelay || 5000\<close>. Otherwise no timer is
  scheduled and the counter is unchanged; \<open>useTransferStream\<close> then sets the status to
  \<open>disconnected\<close>, and \<open>useSSE\<close> does so when the counter has reached the maximum.
\<close>

lemma onerror_behaviour:
  fixes opts :: SSEOptions and cb :: "'c SSECallbacks" and es :: nat
    and h :: SSEHook and c :: 'c
  defines "h' \<equiv> fst (onerror opts cb es (h, c))"
    and "t' \<equiv> ts_onerror opts es h"
    and "maxAttempts \<equiv> orNum (maxReconnectAttempts opts) 10"
    and "delay \<equiv> orNum (reconnectDelay opts) 5000"
    and "retry \<equiv> isTrue (autoReconnect opts) \<and> reconnectAttempts h < orNum (maxReconnectAttempts opts) 10"
  shows "take (Suc (length (statusLog h))) (statusLog h') = statusLog h @ [Error]
       \<and> (es < length (sources h) \<longrightarrow> closed (sources h' ! es))
       \<and> (retry \<longrightarrow>
             reconnectAttempts h' = reconnectAttempts h + 1
             \<and> timers h' = timers h @ [(delay, Pending)]
             \<and> reconnectTimeoutRef h' = Some (length (timers h))
             \<and> status h' = Error)
       \<and> (\<not> retry \<longrightarrow>
             timers h' = timers h
             \<and> reconnectTimeoutRef h' = reconnectTimeoutRef h
             \<and> reconnectAttempts h' = reconnectAttempts h
             \<and> status h' = (if reconnectAttempts h \<ge> maxAttempts then Disconnected else Error))
       \<and> take (Suc (length (statusLog h))) (statusLog t') = statusLog h @ [Error]
       \<and> (es < length (sources h) \<longrightarrow> closed (sources t' ! es))
       \<and> (retry \<longrightarrow>
             reconnectAttempts t' = reconnectAttempts h + 1
             \<and> timers t' = timers h @ [(delay, Pending)]
             \<and> reconnectTimeoutRef t' = Some (length (timers h))
             \<and> status t' = Error)
       \<and> (\<not> retry \<longrightarrow>
             timers t' = timers h
             \<and> reconnectTimeoutRef t' = reconnectTimeoutRef h
             \<and> reconnectAttempts t' = reconnectAttempts h
             \<and> status t' = Disconnected)"
  unfolding h'_def t'_def maxAttempts_def delay_def retry_def
  by (simp add: onerror_def ts_onerror_def Let_def hook_fields closeSource_closed)

text \<open>
  The first error of a connected hook under the defaults schedules a reconnect after
  5000 ms; with a maximum of two, the third consecutive error ends in \<open>disconnected\<close>
  with no timer pending.
\<close>

lemma onerror_behaviour_scenarios:
  "isTrue (autoReconnect (mergeOptions no_options))
   \<and> reconnectAttempts connected_hook < orNum (maxReconnectAttempts (mergeOptions no_options)) 10
   \<and> 0 < length (sources connected_hook)
   \<and> closed (sources (fst (onerror (mergeOptions no_options) no_callbacks 0
                                (connected_hook, ()))) ! 0)
   \<and> status (fst (onerror (mergeOptions no_options) no_callbacks 0 (connected_hook, ())))
       = Error
   \<and> reconnectAttempts (fst (onerror (mergeOptions no_options) no_callbacks 0
                                  (connected_hook, ()))) = 1
   \<and> timers (fst (onerror (mergeOptions no_options) no_callbacks 0 (connected_hook, ())))
       = [(5000, Pending)]
   \<and> reconnectTimeoutRef (ts_onerror (mergeOptions no_options) 0 connected_hook) = Some 0
   \<and> \<not> (isTrue (autoReconnect opts_max2)
          \<and> reconnectAttempts exhausted_hook < orNum (maxReconnectAttempts opts_max2) 10)
   \<and> status (fst (onerror opts_max2 no_callbacks 2 (exhausted_hook, ()))) = Disconnected
   \<and> timers (fst (onerror opts_max2 no_callbacks 2 (exhausted_hook, ())))
       = [(5000, Fired), (5000, Fired)]
   \<and> reconnectTimeoutRef (fst (onerror opts_max2 no_callbacks 2 (exhausted_hook, ())))
       = None
   \<and> status (ts_onerror opts_max2 2 exhausted_hook) = Disconnected"
proof -
  let ?o = "mergeOptions no_options"
  note a = onerror_behaviour
             [where es = 0 and h = connected_hook and opts = ?o and cb = no_callbacks and c = "()"]
  note b = onerror_behaviour
             [where es = 2 and h = exhausted_hook and opts = opts_max2 and cb = no_callbacks
                and c = "()"]
  note r = conjunct2 [THEN conjunct2]
  have o1: "isTrue (autoReconnect ?o)"
    by (simp add: isTrue_def mergeOptions_def no_options_def DEFAULT_OPTIONS_def spread_def)
  have o2: "orNum (maxReconnectAttempts ?o) 10 = 10" "orNum (reconnectDelay ?o) 5000 = 5000"
    by (simp_all add: orNum_def mergeOptions_def no_options_def DEFAULT_OPTIONS_def spread_def)
  have o3: "orNum (maxReconnectAttempts opts_max2) 10 = 2"
    by (simp add: opts_max2_def orNum_def mergeOptions_def no_options_def DEFAULT_OPTIONS_def
          spread_def)
  have h1: "reconnectAttempts connected_hook < orNum (maxReconnectAttempts ?o) 10"
    by (simp add: o2 connected_hook_def)
  have h2: "0 < length (sources connected_hook)" by (simp add: connected_hook_def)
  have h3: "\<not> (isTrue (autoReconnect opts_max2)
          \<and> reconnectAttempts exhausted_hook < orNum (maxReconnectAttempts opts_max2) 10)"
    by (simp add: o3 exhausted_hook_fields)
  have c1: "closed (sources (fst (onerror ?o no_callbacks 0 (connected_hook, ()))) ! 0)"
    by (rule a [THEN conjunct2, THEN conjunct1, THEN mp, OF h2])
  from a [THEN r, THEN conjunct1, THEN mp, OF conjI [OF o1 h1]]
  have c2: "status (fst (onerror ?o no_callbacks 0 (connected_hook, ()))) = Error"
    and c3: "reconnectAttempts (fst (onerror ?o no_callbacks 0 (connected_hook, ()))) = 1"
    and c4: "timers (fst (onerror ?o no_callbacks 0 (connected_hook, ()))) = [(5000, Pending)]"
    by (simp_all add: o2 connected_hook_def)
  from a [THEN r, THEN r, THEN r, THEN conjunct1, THEN mp, OF conjI [OF o1 h1]]
  have c5: "reconnectTimeoutRef (ts_onerror ?o 0 connected_hook) = Some 0"
    by (simp add: connected_hook_def)
  from b [THEN r, THEN conjunct2, THEN conjunct1, THEN mp, OF h3]
  have c6: "status (fst (onerror opts_max2 no_callbacks 2 (exhausted_hook, ()))) = Disconnected"
    and c7: "timers (fst (onerror opts_max2 no_callbacks 2 (exhausted_hook, ())))
               = [(5000, Fired), (5000, Fired)]"
    and c8: "reconnectTimeoutRef (fst (onerror opts_max2 no_callbacks 2 (exhausted_hook, ())))
               = None"
    by (simp_all add: o3 exhausted_hook_fields)
  from b [THEN r, THEN r, THEN r, THEN conjunct2, THEN mp, OF h3]
  have c9: "status (ts_onerror opts_max2 2 exhausted_hook) = Disconnected"
    by simp
  show ?thesis
    by (intro conjI) (rule o1 h1 h2 c1 c2 c3 c4 c5 h3 c6 c7 c8 c9)+
qed

text \<open>
  C3. On a connection error the manager that does not retry, because retries are
  exhausted or auto-reconnect is disabled, is to end in \<open>disconnected\<close> with no
  reconnect timer. \<open>useTransferStream\<close> does so through a plain \<open>else\<close>. \<open>useSSE\<close>
  guards the same branch with \<open>else if (reconnectAttempts.current >= maxAttempts)\<close> and so
  misses the case of auto-reconnect disabled with the counter below the maximum: on the
  first error of a connected hook with \<open>autoReconnect: false\<close> it schedules no timer,
  closes the source, and stays in \<open>error\<close>, where its sibling on the same input goes to
  \<open>disconnected\<close>.
\<close>

theorem no_auto_reconnect_stays_in_error:
  "\<not> isTrue (autoReconnect (mergeOptions (no_options\<lparr>autoReconnect := Some False\<rparr>)))
   \<and> reconnectAttempts connected_hook = 0
   \<and> status (fst (onerror (mergeOptions (no_options\<lparr>autoReconnect := Some False\<rparr>))
                   no_callbacks 0 (connected_hook, ()))) = Error
   \<and> status (fst (onerror (mergeOptions (no_options\<lparr>autoReconnect := Some False\<rparr>))
                   no_callbacks 0 (connected_hook, ()))) \<noteq> Disconnected
   \<and> timers (fst (onerror (mergeOptions (no_options\<lparr>autoReconnect := Some False\<rparr>))
                   no_callbacks 0 (connected_hook, ()))) = []
   \<and> closed (sources (fst (onerror (mergeOptions (no_options\<lparr>autoReconnect := Some False\<rparr>))
                   no_callbacks 0 (connected_hook, ()))) ! 0)
   \<and> status (ts_onerror (mergeOptions (no_options\<lparr>autoReconnect := Some False\<rparr>))
                   0 connected_hook) = Disconnected
   \<and> timers (ts_onerror (mergeOptions (no_options\<lparr>autoReconnect := Some False\<rparr>))
                   0 connected_hook) = []"
  by (simp add: onerror_def ts_onerror_def Let_def hook_fields closeSource_def isTrue_def
        mergeOptions_def no_options_def DEFAULT_OPTIONS_def spread_def orNum_def
        connected_hook_def)

text \<open>
  C4. A frame whose payload \<open>JSON.parse\<close> rejects is dropped: the handler catches the
  exception and its only effect is one \<open>console.error\<close> entry. The hook state is
  otherwise unchanged (status, last-event instant, source, counter, timers), and the
  state of the consuming component is unchanged whatever callbacks are registered, so no
  callback ran and the buffer is as it was. This holds for the two named listeners of
  \<open>useSSE\<close> and for the message handler of \<open>useTransferStream\<close>.
\<close>

theorem malformed_frame_dropped:
  "(parseT payload = None \<longrightarrow>
      transfersListener parseT cb payload now (h, c)
        = (h\<lparr>console := console h @ [ConsoleError ''[SSE] Failed to parse transfers event:'']\<rparr>,
           c))
   \<and> (parseC payload = None \<longrightarrow>
      coordinatedListener parseC cb payload now (h, c)
        = (h\<lparr>console := console h @ [ConsoleError ''[SSE] Failed to parse coordinated event:'']\<rparr>,
           c))
   \<and> (parseF payload = None \<longrightarrow>
      ts_onmessage parseF f payload (h, c)
        = (h\<lparr>console := console h @ [ConsoleError ''[SSE] Failed to parse transfers:'']\<rparr>, c))"
  by (simp add: transfersListener_def coordinatedListener_def ts_onmessage_def logged_def)

theorem malformed_frame_dropped_witness:
  "parse_empty_array ''not json'' = None
   \<and> parse_nothing ''not json'' = None
   \<and> parse_empty_frame ''not json'' = None
   \<and> status (fst (transfersListener parse_empty_array (live_callbacks True) ''not json'' 7
                    (connected_hook, page_with_item))) = Connected
   \<and> snd (transfersListener parse_empty_array (live_callbacks True) ''not json'' 7
             (connected_hook, page_with_item)) = page_with_item
   \<and> feedItems (snd (coordinatedListener parse_nothing (live_callbacks True) ''not json'' 7
                        (connected_hook, page_with_item))) = [Transfer (sample_transfer 1)]
   \<and> status (fst (coordinatedListener parse_nothing (live_callbacks True) ''not json'' 7
                    (connected_hook, page_with_item))) = Connected
   \<and> ts_onmessage parse_empty_frame (live_onTransfer True) ''not json''
         (connected_hook, page_with_item)
       = (connected_hook\<lparr>console := console connected_hook
                                  @ [ConsoleError ''[SSE] Failed to parse transfers:'']\<rparr>,
          page_with_item)"
proof -
  note w = malformed_frame_dropped
             [where parseT = parse_empty_array and parseC = parse_nothing
                and parseF = parse_empty_frame and payload = "''not json''"
                and cb = "live_callbacks True" and f = "live_onTransfer True" and now = 7
                and h = connected_hook and c = page_with_item]
  have p1: "parse_empty_array ''not json'' = None" by (simp add: parse_empty_array_def)
  have p2: "parse_nothing ''not json'' = None" by (simp add: parse_nothing_def)
  have p3: "parse_empty_frame ''not json'' = None" by (simp add: parse_empty_frame_def)
  note t = w [THEN conjunct1, THEN mp, OF p1]
  note k = w [THEN conjunct2, THEN conjunct1, THEN mp, OF p2]
  note m = w [THEN conjunct2, THEN conjunct2, THEN mp, OF p3]
  have c1: "status (fst (transfersListener parse_empty_array (live_callbacks True) ''not json'' 7
                    (connected_hook, page_with_item))) = Connected"
    by (simp only: t) (simp add: connected_hook_def)
  have c2: "snd (transfersListener parse_empty_array (live_callbacks True) ''not json'' 7
             (connected_hook, page_with_item)) = page_with_item"
    by (simp only: t snd_conv)
  have c3: "feedItems (snd (coordinatedListener parse_nothing (live_callbacks True) ''not json'' 7
                        (connected_hook, page_with_item))) = [Transfer (sample_transfer 1)]"
    by (simp only: k snd_conv) (simp add: page_with_item_def)
  have c4: "status (fst (coordinatedListener parse_nothing (live_callbacks True) ''not json'' 7
                    (connected_hook, page_with_item))) = Connected"
    by (simp only: k) (simp add: connected_hook_def)
  show ?thesis
    by (intro conjI) (rule p1 p2 p3 c1 c2 c3 c4 m)+
qed

text \<open>
  C8. \<open>disconnect\<close> of \<open>useSSE\<close> leaves the hook disconnected with the attempt
  counter at 0, no timer reference and no source reference; the timer that was pending is
  no longer pending and the source that was referenced is closed. A second call finds
  nothing to cancel or close: the hook is again disconnected with counter 0 and no timer,
  and the timers and the sources are as the first call left them.
\<close>

theorem disconnect_idempotent:
  fixes cb :: "'c SSECallbacks" and h :: SSEHook and c :: 'c
  defines "h1 \<equiv> fst (disconnect cb (h, c))"
    and "h2 \<equiv> fst (disconnect cb (disconnect cb (h, c)))"
  shows "status h1 = Disconnected \<and> reconnectAttempts h1 = 0
       \<and> reconnectTimeoutRef h1 = None \<and> eventSourceRef h1 = None
       \<and> (reconnectTimeoutRef h = Some t \<and> t < length (timers h)
            \<longrightarrow> snd (timers h1 ! t) \<noteq> Pending)
       \<and> (eventSourceRef h = Some i \<and> i < length (sources h)
            \<longrightarrow> closed (sources h1 ! i))
       \<and> status h2 = Disconnected \<and> reconnectAttempts h2 = 0
       \<and> reconnectTimeoutRef h2 = None \<and> eventSourceRef h2 = None
       \<and> timers h2 = timers h1 \<and> sources h2 = sources h1 \<and> lastEvent h2 = lastEvent h1"
  unfolding h1_def h2_def
  by (simp add: disconnect_def Let_def hook_fields clearReconnectTimeout_def clearTimeout_def
        closeSource_def split: option.split)

theorem disconnect_idempotent_witness:
  "reconnectTimeoutRef retrying_hook = Some 0 \<and> 0 < length (timers retrying_hook)
   \<and> snd (timers (fst (disconnect no_callbacks (retrying_hook, ()))) ! 0) = Cleared
   \<and> eventSourceRef connected_hook = Some 0 \<and> 0 < length (sources connected_hook)
   \<and> closed (sources (fst (disconnect no_callbacks (connected_hook, ()))) ! 0)
   \<and> status (fst (disconnect no_callbacks (retrying_hook, ()))) = Disconnected
   \<and> reconnectAttempts (fst (disconnect no_callbacks (retrying_hook, ()))) = 0
   \<and> status (fst (disconnect no_callbacks (disconnect no_callbacks (retrying_hook, ()))))
       = Disconnected
   \<and> timers (fst (disconnect no_callbacks (disconnect no_callbacks (retrying_hook, ()))))
       = [(5000, Cleared)]"
proof -
  note a = disconnect_idempotent
             [where h = retrying_hook and cb = no_callbacks and c = "()" and t = 0 and i = 0]
  note b = disconnect_idempotent
             [where h = connected_hook and cb = no_callbacks and c = "()" and t = 0 and i = 0]
  note r = conjunct2 [THEN conjunct2]
  have h1: "reconnectTimeoutRef retrying_hook = Some 0" by (rule retrying_hook_fields)
  have h2: "0 < length (timers retrying_hook)" by (simp add: retrying_hook_fields)
  have h3: "eventSourceRef connected_hook = Some 0" by (simp add: connected_hook_def)
  have h4: "0 < length (sources connected_hook)" by (simp add: connected_hook_def)
  have tm: "timers (fst (disconnect no_callbacks (retrying_hook, ()))) = [(5000, Cleared)]"
    by (simp add: disconnect_def Let_def hook_fields clearReconnectTimeout_def clearTimeout_def
          closeSource_def retrying_hook_fields split: option.split)
  have c1: "snd (timers (fst (disconnect no_callbacks (retrying_hook, ()))) ! 0) = Cleared"
    using a [THEN r, THEN r, THEN conjunct1, THEN mp, OF conjI [OF h1 h2]]
    by (simp add: tm)
  have c2: "closed (sources (fst (disconnect no_callbacks (connected_hook, ()))) ! 0)"
    by (rule b [THEN r, THEN r, THEN conjunct2, THEN conjunct1, THEN mp, OF conjI [OF h3 h4]])
  have c3: "status (fst (disconnect no_callbacks (retrying_hook, ()))) = Disconnected"
    by (rule a [THEN conjunct1])
  have c4: "reconnectAttempts (fst (disconnect no_callbacks (retrying_hook, ()))) = 0"
    by (rule a [THEN conjunct2, THEN conjunct1])
  have c5: "status (fst (disconnect no_callbacks (disconnect no_callbacks (retrying_hook, ()))))
       = Disconnected"
    by (rule a [THEN r, THEN r, THEN r, THEN conjunct1])
  have "timers (fst (disconnect no_callbacks (disconnect no_callbacks (retrying_hook, ()))))
       = timers (fst (disconnect no_callbacks (retrying_hook, ())))"
    by (rule a [THEN r, THEN r, THEN r, THEN r, THEN r, THEN conjunct1])
  then have c6: "timers (fst (disconnect no_callbacks (disconnect no_callbacks (retrying_hook, ()))))
       = [(5000, Cleared)]"
    by (simp only: tm)
  show ?thesis
    by (intro conjI) (rule h1 h2 c1 h3 h4 c2 c3 c4 c5 c6)+
qed

text \<open>
  The \<open>disconnect\<close> of \<open>useTransferStream\<close> cancels and closes in the same way but
  leaves the attempt counter as it is.
\<close>

lemma ts_disconnect_keeps_counter:
  "reconnectAttempts (ts_disconnect h) = reconnectAttempts h
   \<and> status (ts_disconnect h) = Disconnected
   \<and> reconnectTimeoutRef (ts_disconnect h) = None
   \<and> eventSourceRef (ts_disconnect h) = None"
  by (simp add: ts_disconnect_def Let_def hook_fields clearReconnectTimeout_def
        clearTimeout_def split: option.split)

lemma merge_zero_max:
  "orNum (maxReconnectAttempts (mergeOptions (options\<lparr>maxReconnectAttempts := Some 0\<rparr>))) 10 = 10"
  "orNum (maxReconnectAttempts (mergeOptions (options\<lparr>maxReconnectAttempts := Some 10\<rparr>))) 10 = 10"
  "orNum (maxReconnectAttempts (mergeOptions (options\<lparr>maxReconnectAttempts := None\<rparr>))) 10 = 10"
  "orNum (reconnectDelay (mergeOptions (options\<lparr>reconnectDelay := Some 0\<rparr>))) 5000 = 5000"
  "orNum (reconnectDelay (mergeOptions (options\<lparr>reconnectDelay := Some 5000\<rparr>))) 5000 = 5000"
  "orNum (reconnectDelay (mergeOptions (options\<lparr>reconnectDelay := None\<rparr>))) 5000 = 5000"
  by (simp_all add: orNum_def mergeOptions_def spread_def DEFAULT_OPTIONS_def)

lemma merge_other_fields:
  "autoReconnect (mergeOptions (options\<lparr>maxReconnectAttempts := m\<rparr>))
     = autoReconnect (mergeOptions options)"
  "reconnectDelay (mergeOptions (options\<lparr>maxReconnectAttempts := m\<rparr>))
     = reconnectDelay (mergeOptions options)"
  "url (mergeOptions (options\<lparr>maxReconnectAttempts := m\<rparr>)) = url (mergeOptions options)"
  "autoReconnect (mergeOptions (options\<lparr>reconnectDelay := d\<rparr>))
     = autoReconnect (mergeOptions options)"
  "maxReconnectAttempts (mergeOptions (options\<lparr>reconnectDelay := d\<rparr>))
     = maxReconnectAttempts (mergeOptions options)"
  "url (mergeOptions (options\<lparr>reconnectDelay := d\<rparr>)) = url (mergeOptions options)"
  by (simp_all add: mergeOptions_def)

lemma onerror_zero_max:
  "onerror (mergeOptions (options\<lparr>maxReconnectAttempts := Some 0\<rparr>)) cb es hc
     = onerror (mergeOptions (options\<lparr>maxReconnectAttempts := Some 10\<rparr>)) cb es hc"
  by (simp add: onerror_def merge_zero_max merge_other_fields)

lemma onerror_zero_delay:
  "onerror (mergeOptions (options\<lparr>reconnectDelay := Some 0\<rparr>)) cb es hc
     = onerror (mergeOptions (options\<lparr>reconnectDelay := Some 5000\<rparr>)) cb es hc"
  by (simp add: onerror_def merge_zero_max merge_other_fields)

lemma connect_opts:
  "url o1 = url o2 \<Longrightarrow> connect env o1 cb hc = connect env o2 cb hc"
  by (simp add: connect_def)

lemma timerFired_opts:
  "url o1 = url o2 \<Longrightarrow> timerFired env o1 cb t hc = timerFired env o2 cb t hc"
  by (simp add: timerFired_def connect_opts [of o1 o2])

text \<open>
  C10. A caller's \<open>maxReconnectAttempts: 0\<close> or \<open>reconnectDelay: 0\<close> is falsy in
  \<open>maxReconnectAttempts || 10\<close> and \<open>reconnectDelay || 5000\<close>: on every event the hook
  reacts as it does under 10 attempts and 5000 ms, in \<open>useSSE\<close> and in
  \<open>useTransferStream\<close>. In particular, with auto-reconnect on and both options 0, the
  first error schedules a reconnect after 5000 ms.
\<close>

theorem zero_option_means_default:
  "sse_step env pt pc (mergeOptions (options\<lparr>maxReconnectAttempts := Some 0\<rparr>)) cb ev hc
     = sse_step env pt pc (mergeOptions (options\<lparr>maxReconnectAttempts := Some 10\<rparr>)) cb ev hc
   \<and> sse_step env pt pc (mergeOptions (options\<lparr>reconnectDelay := Some 0\<rparr>)) cb ev hc
     = sse_step env pt pc (mergeOptions (options\<lparr>reconnectDelay := Some 5000\<rparr>)) cb ev hc
   \<and> ts_onerror (mergeOptions (options\<lparr>maxReconnectAttempts := Some 0\<rparr>)) es h
     = ts_onerror (mergeOptions (options\<lparr>maxReconnectAttempts := Some 10\<rparr>)) es h
   \<and> ts_onerror (mergeOptions (options\<lparr>reconnectDelay := Some 0\<rparr>)) es h
     = ts_onerror (mergeOptions (options\<lparr>reconnectDelay := Some 5000\<rparr>)) es h
   \<and> timers (fst (onerror
         (mergeOptions (options\<lparr>autoReconnect := Some True, maxReconnectAttempts := Some 0,
                                 reconnectDelay := Some 0\<rparr>))
         cb es (h\<lparr>reconnectAttempts := 0\<rparr>, c)))
     = timers h @ [(5000, Pending)]"
proof (intro conjI)
  show "sse_step env pt pc (mergeOptions (options\<lparr>maxReconnectAttempts := Some 0\<rparr>)) cb ev hc
     = sse_step env pt pc (mergeOptions (options\<lparr>maxReconnectAttempts := Some 10\<rparr>)) cb ev hc"
    by (cases ev)
       (simp_all add: onerror_zero_max
          connect_opts [of "mergeOptions (options\<lparr>maxReconnectAttempts := Some 0\<rparr>)"
                           "mergeOptions (options\<lparr>maxReconnectAttempts := Some 10\<rparr>)"]
          timerFired_opts [of "mergeOptions (options\<lparr>maxReconnectAttempts := Some 0\<rparr>)"
                           "mergeOptions (options\<lparr>maxReconnectAttempts := Some 10\<rparr>)"]
          merge_other_fields)
  show "sse_step env pt pc (mergeOptions (options\<lparr>reconnectDelay := Some 0\<rparr>)) cb ev hc
     = sse_step env pt pc (mergeOptions (options\<lparr>reconnectDelay := Some 5000\<rparr>)) cb ev hc"
    by (cases ev)
       (simp_all add: onerror_zero_delay
          connect_opts [of "mergeOptions (options\<lparr>reconnectDelay := Some 0\<rparr>)"
                           "mergeOptions (options\<lparr>reconnectDelay := Some 5000\<rparr>)"]
          timerFired_opts [of "mergeOptions (options\<lparr>reconnectDelay := Some 0\<rparr>)"
                           "mergeOptions (options\<lparr>reconnectDelay := Some 5000\<rparr>)"]
          merge_other_fields)
  show "ts_onerror (mergeOptions (options\<lparr>maxReconnectAttempts := Some 0\<rparr>)) es h
     = ts_onerror (mergeOptions (options\<lparr>maxReconnectAttempts := Some 10\<rparr>)) es h"
    by (simp add: ts_onerror_def merge_zero_max merge_other_fields)
  show "ts_onerror (mergeOptions (options\<lparr>reconnectDelay := Some 0\<rparr>)) es h
     = ts_onerror (mergeOptions (options\<lparr>reconnectDelay := Some 5000\<rparr>)) es h"
    by (simp add: ts_onerror_def merge_zero_max merge_other_fields)
  show "timers (fst (onerror
         (mergeOptions (options\<lparr>autoReconnect := Some True, maxReconnectAttempts := Some 0,
                                 reconnectDelay := Some 0\<rparr>))
         cb es (h\<lparr>reconnectAttempts := 0\<rparr>, c)))
     = timers h @ [(5000, Pending)]"
    by (simp add: onerror_def Let_def hook_fields orNum_def mergeOptions_def spread_def
          DEFAULT_OPTIONS_def isTrue_def)
qed

end
